theory Spec2Isabelle
  imports Complex_Main "HOL-Library.Sublist"
begin

section \<open>Values, errors and data frames\<close>

text \<open>
  A float is an IEEE 754 binary64 number: a finite value, an infinity, or NaN, which the
  converters of \<^verbatim>\<open>trace_file.py\<close> produce on purpose and which \<^verbatim>\<open>dropna\<close> looks for.
  A finite value is held as the real number it denotes. Every arithmetic operation gives the
  exact result rounded to the nearest double, ties to the even significand, with gradual
  underflow, and an infinity when the rounded result is out of range. The sign of zero is
  not modelled: every zero is +0.0.
\<close>

datatype flt = Fin real | PInf | NInf | NaN

text \<open>Rounding a real to an integer, a tie to the even neighbour.\<close>

definition rhe :: "real \<Rightarrow> int" where
  "rhe y =
     (let f = \<lfloor>y\<rfloor> in
      if y - of_int f < 1 / 2 then f
      else if 1 / 2 < y - of_int f then f + 1
      else if even f then f else f + 1)"

text \<open>
  The binary exponent of a nonzero real, not below that of the smallest normal double, and
  the distance between neighbouring doubles there: 52 bits follow the leading one.
\<close>

definition exponent64 :: "real \<Rightarrow> int" where
  "exponent64 x = max \<lfloor>log 2 \<bar>x\<bar>\<rfloor> (- 1022)"

definition ulp64 :: "real \<Rightarrow> real" where
  "ulp64 x = 2 powi (exponent64 x - 52)"

definition round64 :: "real \<Rightarrow> flt" where
  "round64 x =
     (if x = 0 then Fin 0
      else (let y = of_int (rhe (x / ulp64 x)) * ulp64 x in
            if 2 ^ 1024 \<le> \<bar>y\<bar> then (if 0 < x then PInf else NInf) else Fin y))"

fun fadd :: "flt \<Rightarrow> flt \<Rightarrow> flt" where
  "fadd (Fin x) (Fin y) = round64 (x + y)"
| "fadd NaN _ = NaN"
| "fadd _ NaN = NaN"
| "fadd PInf NInf = NaN"
| "fadd NInf PInf = NaN"
| "fadd PInf _ = PInf"
| "fadd _ PInf = PInf"
| "fadd NInf _ = NInf"
| "fadd _ NInf = NInf"

fun fsub :: "flt \<Rightarrow> flt \<Rightarrow> flt" where
  "fsub (Fin x) (Fin y) = round64 (x - y)"
| "fsub NaN _ = NaN"
| "fsub _ NaN = NaN"
| "fsub PInf PInf = NaN"
| "fsub NInf NInf = NaN"
| "fsub PInf _ = PInf"
| "fsub NInf _ = NInf"
| "fsub _ PInf = NInf"
| "fsub _ NInf = PInf"

fun fmul :: "flt \<Rightarrow> flt \<Rightarrow> flt" where
  "fmul (Fin x) (Fin y) = round64 (x * y)"
| "fmul NaN _ = NaN"
| "fmul _ NaN = NaN"
| "fmul PInf (Fin y) = (if y = 0 then NaN else if 0 < y then PInf else NInf)"
| "fmul NInf (Fin y) = (if y = 0 then NaN else if 0 < y then NInf else PInf)"
| "fmul (Fin x) PInf = (if x = 0 then NaN else if 0 < x then PInf else NInf)"
| "fmul (Fin x) NInf = (if x = 0 then NaN else if 0 < x then NInf else PInf)"
| "fmul PInf PInf = PInf"
| "fmul NInf NInf = PInf"
| "fmul PInf NInf = NInf"
| "fmul NInf PInf = NInf"

text \<open>
  IEEE division, which raises nothing: a nonzero number over zero is an infinity, zero over
  zero is NaN.
\<close>

fun fdiv :: "flt \<Rightarrow> flt \<Rightarrow> flt" where
  "fdiv (Fin x) (Fin y) =
     (if y = 0 then (if x = 0 then NaN else if 0 < x then PInf else NInf)
      else round64 (x / y))"
| "fdiv NaN _ = NaN"
| "fdiv _ NaN = NaN"
| "fdiv (Fin x) PInf = Fin 0"
| "fdiv (Fin x) NInf = Fin 0"
| "fdiv PInf (Fin y) = (if 0 \<le> y then PInf else NInf)"
| "fdiv NInf (Fin y) = (if 0 \<le> y then NInf else PInf)"
| "fdiv _ _ = NaN"

text \<open>Comparisons: NaN compares false with everything.\<close>

fun flt_lt :: "flt \<Rightarrow> flt \<Rightarrow> bool" where
  "flt_lt (Fin x) (Fin y) = (x < y)"
| "flt_lt NInf (Fin y) = True"
| "flt_lt NInf PInf = True"
| "flt_lt (Fin x) PInf = True"
| "flt_lt _ _ = False"

fun flt_le :: "flt \<Rightarrow> flt \<Rightarrow> bool" where
  "flt_le (Fin x) (Fin y) = (x \<le> y)"
| "flt_le NaN _ = False"
| "flt_le _ NaN = False"
| "flt_le NInf _ = True"
| "flt_le _ PInf = True"
| "flt_le _ _ = False"

fun flt_gt :: "flt \<Rightarrow> flt \<Rightarrow> bool" where
  "flt_gt (Fin x) (Fin y) = (x > y)"
| "flt_gt (Fin x) NInf = True"
| "flt_gt PInf NInf = True"
| "flt_gt PInf (Fin y) = True"
| "flt_gt _ _ = False"

fun flt_ge :: "flt \<Rightarrow> flt \<Rightarrow> bool" where
  "flt_ge (Fin x) (Fin y) = (x \<ge> y)"
| "flt_ge NaN _ = False"
| "flt_ge _ NaN = False"
| "flt_ge _ NInf = True"
| "flt_ge PInf _ = True"
| "flt_ge _ _ = False"

fun flt_eq :: "flt \<Rightarrow> flt \<Rightarrow> bool" where
  "flt_eq NaN _ = False"
| "flt_eq _ NaN = False"
| "flt_eq a b = (a = b)"

text \<open>
  The exceptions the modelled code can raise. Both of the spec's \<^verbatim>\<open>InvalidArgument\<close> and
  \<^verbatim>\<open>MissingColumn\<close> are a Python \<^verbatim>\<open>ValueError\<close> in the source, told apart by
  their message.
\<close>

datatype error =
    ValueError string
  | KeyError
  | TypeError
  | AttributeError
  | IndexError
  | ZeroDivisionError

definition invalid_range_msg :: string where
  "invalid_range_msg = ''Minimum is larger than maximum in range filter.''"

definition missing_column_msg :: "string \<Rightarrow> string" where
  "missing_column_msg column = ''Column '' @ column @ '' is not in the provided trace file.''"

definition unequal_length_msg :: string where
  "unequal_length_msg = ''Statistics list and trace file list are not of equal length.''"

text \<open>
  A float scalar is a Python \<^verbatim>\<open>float\<close> or a numpy \<^verbatim>\<open>float64\<close>, which pandas returns
  from \<^verbatim>\<open>max()\<close> and \<^verbatim>\<open>min()\<close>. An operation with a numpy operand is numpy's and gives
  a numpy scalar; between two Python floats it is Python's.
\<close>

datatype scalar = PyFloat flt | NpFloat flt

fun as_flt :: "scalar \<Rightarrow> flt" where
  "as_flt (PyFloat f) = f"
| "as_flt (NpFloat f) = f"

fun is_np :: "scalar \<Rightarrow> bool" where
  "is_np (PyFloat f) = False"
| "is_np (NpFloat f) = True"

definition result_of :: "scalar \<Rightarrow> scalar \<Rightarrow> flt \<Rightarrow> scalar" where
  "result_of a b f = (if is_np a \<or> is_np b then NpFloat f else PyFloat f)"

definition num_add :: "scalar \<Rightarrow> scalar \<Rightarrow> scalar" where
  "num_add a b = result_of a b (fadd (as_flt a) (as_flt b))"

definition num_sub :: "scalar \<Rightarrow> scalar \<Rightarrow> scalar" where
  "num_sub a b = result_of a b (fsub (as_flt a) (as_flt b))"

definition num_mul :: "scalar \<Rightarrow> scalar \<Rightarrow> scalar" where
  "num_mul a b = result_of a b (fmul (as_flt a) (as_flt b))"

definition num_div :: "scalar \<Rightarrow> scalar \<Rightarrow> scalar" where
  "num_div a b = result_of a b (fdiv (as_flt a) (as_flt b))"

text \<open>
  \<^verbatim>\<open>a / b\<close>: Python's division of two floats raises on a zero divisor, whatever the
  dividend; numpy's gives the IEEE result (and a warning).
\<close>

definition truediv :: "scalar \<Rightarrow> scalar \<Rightarrow> error + scalar" where
  "truediv a b =
     (if \<not> is_np a \<and> \<not> is_np b \<and> as_flt b = Fin 0 then Inl ZeroDivisionError
      else Inr (num_div a b))"

text \<open>
  A cell of a data frame: an integer, a float or a string. A data frame is the list of its
  column names and the list of its rows, each row aligned with the column names.
\<close>

datatype cell = IntV int | FloatV flt | StrV string

record data_frame =
  columns :: "string list"
  rows :: "cell list list"

fun index_of :: "string \<Rightarrow> string list \<Rightarrow> nat" where
  "index_of c [] = 0"
| "index_of c (x # xs) = (if x = c then 0 else Suc (index_of c xs))"

text \<open>A row shorter than the header reads as NaN there, as pandas pads ragged rows.\<close>

definition cell_at :: "cell list \<Rightarrow> nat \<Rightarrow> cell" where
  "cell_at row i = (if i < length row then row ! i else FloatV NaN)"

definition field :: "data_frame \<Rightarrow> string \<Rightarrow> cell list \<Rightarrow> cell" where
  "field df c row = cell_at row (index_of c (columns df))"

text \<open>\<^verbatim>\<open>data_frame[column]\<close>: the series of a column, \<^verbatim>\<open>KeyError\<close> when absent.\<close>

definition get_column :: "data_frame \<Rightarrow> string \<Rightarrow> error + cell list" where
  "get_column df c =
     (if c \<in> set (columns df) then Inr (map (field df c) (rows df)) else Inl KeyError)"

text \<open>\<^verbatim>\<open>data_frame[mask]\<close>: the rows at which the boolean series is true.\<close>

definition select_rows :: "data_frame \<Rightarrow> bool list \<Rightarrow> data_frame" where
  "select_rows df bs = df\<lparr>rows := map fst (filter snd (zip (rows df) bs))\<rparr>"

text \<open>
  The number a cell holds. Comparing a string with a float, or adding them, raises
  \<^verbatim>\<open>TypeError\<close> in Python. An integer is taken to convert to a float exactly, as the
  ids, lanes and counts of a trace file do.
\<close>

fun cell_num :: "cell \<Rightarrow> flt option" where
  "cell_num (IntV i) = Some (Fin (of_int i))"
| "cell_num (FloatV f) = Some f"
| "cell_num (StrV s) = None"

fun cell_cmp :: "(flt \<Rightarrow> flt \<Rightarrow> bool) \<Rightarrow> cell \<Rightarrow> flt \<Rightarrow> error + bool" where
  "cell_cmp opr c b = (case cell_num c of None \<Rightarrow> Inl TypeError | Some x \<Rightarrow> Inr (opr x b))"

text \<open>\<^verbatim>\<open>series >= bound\<close> and its siblings: the comparison at every element.\<close>

fun series_cmp :: "(flt \<Rightarrow> flt \<Rightarrow> bool) \<Rightarrow> cell list \<Rightarrow> flt \<Rightarrow> error + bool list" where
  "series_cmp opr [] b = Inr []"
| "series_cmp opr (c # cs) b =
     (case cell_cmp opr c b of
        Inl e \<Rightarrow> Inl e
      | Inr x \<Rightarrow> (case series_cmp opr cs b of Inl e \<Rightarrow> Inl e | Inr xs \<Rightarrow> Inr (x # xs)))"

section \<open>Filters (filter.py)\<close>

record range =
  range_column :: string
  range_min :: flt
  range_max :: flt
  min_inclusive :: bool
  max_inclusive :: bool

text \<open>\<^verbatim>\<open>Range.__init__\<close>: raises when \<^verbatim>\<open>minimum > maximum\<close>.\<close>

definition Range_init :: "string \<Rightarrow> flt \<Rightarrow> flt \<Rightarrow> bool \<Rightarrow> bool \<Rightarrow> error + range" where
  "Range_init column minimum maximum min_incl max_incl =
     (if flt_gt minimum maximum then Inl (ValueError invalid_range_msg)
      else Inr \<lparr>range_column = column, range_min = minimum, range_max = maximum,
                min_inclusive = min_incl, max_inclusive = max_incl\<rparr>)"

text \<open>\<^verbatim>\<open>Range.apply\<close>: two boolean series, their conjunction, and the selection.\<close>

definition Range_apply :: "range \<Rightarrow> data_frame \<Rightarrow> error + data_frame" where
  "Range_apply r df =
     (case get_column df (range_column r) of
        Inl e \<Rightarrow> Inl e
      | Inr col \<Rightarrow>
         (case (if min_inclusive r then series_cmp flt_ge col (range_min r)
                else series_cmp flt_gt col (range_min r)) of
            Inl e \<Rightarrow> Inl e
          | Inr min_bool \<Rightarrow>
             (case (if max_inclusive r then series_cmp flt_le col (range_max r)
                    else series_cmp flt_lt col (range_max r)) of
                Inl e \<Rightarrow> Inl e
              | Inr max_bool \<Rightarrow>
                  Inr (select_rows df (map (\<lambda>(x, y). x \<and> y) (zip min_bool max_bool))))))"

record area =
  area_value :: flt
  t_filter :: range
  pos_filter :: range

text \<open>
  \<^verbatim>\<open>Area.__init__\<close>: the area is computed first, then the two inclusive ranges are
  built, each by \<^verbatim>\<open>Range.__init__\<close>, whose exception leaves the constructor.
\<close>

definition Area_init :: "flt \<Rightarrow> flt \<Rightarrow> flt \<Rightarrow> flt \<Rightarrow> error + area" where
  "Area_init min_t max_t min_pos max_pos =
     (let a = fmul (fsub max_t min_t) (fsub max_pos min_pos) in
      case Range_init ''t (s)'' min_t max_t True True of
        Inl e \<Rightarrow> Inl e
      | Inr tf \<Rightarrow>
         (case Range_init ''pos (m)'' min_pos max_pos True True of
            Inl e \<Rightarrow> Inl e
          | Inr pf \<Rightarrow> Inr \<lparr>area_value = a, t_filter = tf, pos_filter = pf\<rparr>))"

definition get_area :: "area \<Rightarrow> flt" where
  "get_area a = area_value a"

definition Area_apply :: "area \<Rightarrow> data_frame \<Rightarrow> error + data_frame" where
  "Area_apply a df =
     (case Range_apply (t_filter a) df of
        Inl e \<Rightarrow> Inl e
      | Inr df' \<Rightarrow> Range_apply (pos_filter a) df')"

record inset =
  inset_column :: string
  inset_values :: "string set"

definition InSet_init :: "string \<Rightarrow> string set \<Rightarrow> inset" where
  "InSet_init column vals = \<lparr>inset_column = column, inset_values = vals\<rparr>"

fun cell_isin :: "string set \<Rightarrow> cell \<Rightarrow> bool" where
  "cell_isin vals (StrV s) = (s \<in> vals)"
| "cell_isin vals _ = False"

definition InSet_apply :: "inset \<Rightarrow> data_frame \<Rightarrow> error + data_frame" where
  "InSet_apply f df =
     (case get_column df (inset_column f) of
        Inl e \<Rightarrow> Inl e
      | Inr col \<Rightarrow> Inr (select_rows df (map (cell_isin (inset_values f)) col)))"

datatype filter = RangeF range | AreaF area | InSetF inset

fun Filter_apply :: "filter \<Rightarrow> data_frame \<Rightarrow> error + data_frame" where
  "Filter_apply (RangeF r) df = Range_apply r df"
| "Filter_apply (AreaF a) df = Area_apply a df"
| "Filter_apply (InSetF f) df = InSet_apply f df"

text \<open>
  The spec's reading of a range: the inequality configured at each bound, on the number the
  cell holds.
\<close>

definition satisfies_bounds :: "bool \<Rightarrow> bool \<Rightarrow> flt \<Rightarrow> flt \<Rightarrow> cell \<Rightarrow> bool" where
  "satisfies_bounds incl_min incl_max a b c =
     (case cell_num c of
        None \<Rightarrow> False
      | Some x \<Rightarrow>
          (if incl_min then flt_ge x a else flt_gt x a) \<and>
          (if incl_max then flt_le x b else flt_lt x b))"

definition numeric_column :: "data_frame \<Rightarrow> string \<Rightarrow> bool" where
  "numeric_column df c = list_all (\<lambda>row. cell_num (field df c row) \<noteq> None) (rows df)"

section \<open>Trace files (trace\_file.py)\<close>















text \<open>\<^verbatim>\<open>dropna\<close>: a row stays when none of its cells is NaN.\<close>

definition isna :: "cell \<Rightarrow> bool" where
  "isna c = (c = FloatV NaN)"


text \<open>
  A \<^verbatim>\<open>TraceFile\<close> object has one attribute, \<^verbatim>\<open>_data_frame\<close>, which the constructor
  leaves unset when the file name is empty (\<open>None\<close>). The guard
  \<^verbatim>\<open>str != None and len(filename)\<close> of the source tests the type \<^verbatim>\<open>str\<close>, which is
  never \<^verbatim>\<open>None\<close>, so the file is read exactly when the name is not empty.
\<close>

type_synonym trace_file = "data_frame option"


definition get_data_frame :: "trace_file \<Rightarrow> error + data_frame" where
  "get_data_frame tf = (case tf of None \<Rightarrow> Inl AttributeError | Some df \<Rightarrow> Inr df)"

definition TraceFile_filter :: "trace_file \<Rightarrow> filter \<Rightarrow> error + trace_file" where
  "TraceFile_filter tf filt =
     (case get_data_frame tf of
        Inl e \<Rightarrow> Inl e
      | Inr df \<Rightarrow> (case Filter_apply filt df of Inl e \<Rightarrow> Inl e | Inr df' \<Rightarrow> Inr (Some df')))"






section \<open>Statistics (statistic.py)\<close>

text \<open>
  Objects are told apart by identity. A \<^verbatim>\<open>TraceFile\<close> object is a reference into a heap
  of trace files; the heap is fixed while statistics are computed, since no method of the
  source changes the data frame of a trace file that already exists (\<^verbatim>\<open>filter\<close> fills a
  new object).
\<close>

type_synonym ref = nat

type_synonym heap = "ref \<Rightarrow> trace_file"

text \<open>\<^verbatim>\<open>Statistic._check_column\<close>.\<close>

definition check_column :: "string \<Rightarrow> trace_file \<Rightarrow> error + unit" where
  "check_column column tf =
     (case get_data_frame tf of
        Inl e \<Rightarrow> Inl e
      | Inr df \<Rightarrow>
          (if \<not> column \<in> set (columns df) then Inl (ValueError (missing_column_msg column))
           else Inr ()))"

text \<open>
  \<^verbatim>\<open>==\<close> between cells: numbers by value, strings by content, NaN equal to nothing.
  \<^verbatim>\<open>unique()\<close> keeps the first occurrence of every value, and one NaN.
\<close>

definition py_eq :: "cell \<Rightarrow> cell \<Rightarrow> bool" where
  "py_eq x y =
     (case (x, y) of
        (StrV a, StrV b) \<Rightarrow> a = b
      | _ \<Rightarrow> (case (cell_num x, cell_num y) of
                (Some a, Some b) \<Rightarrow> flt_eq a b
              | _ \<Rightarrow> False))"

definition same_key :: "cell \<Rightarrow> cell \<Rightarrow> bool" where
  "same_key x y = (py_eq x y \<or> (isna x \<and> isna y))"

function unique :: "cell list \<Rightarrow> cell list" where
  "unique [] = []"
| "unique (x # xs) = x # unique (filter (\<lambda>y. \<not> same_key x y) xs)"
  by pat_completeness auto
termination
  by (relation "measure length") (auto simp: less_Suc_eq_le)

text \<open>
  \<^verbatim>\<open>Series.max()\<close> and \<^verbatim>\<open>Series.min()\<close> skip NaN and give NaN when nothing is left;
  a string in the series makes the sum that uses the result raise \<^verbatim>\<open>TypeError\<close>.
\<close>

fun present_vals :: "cell list \<Rightarrow> flt list" where
  "present_vals [] = []"
| "present_vals (c # cs) =
     (case cell_num c of
        None \<Rightarrow> present_vals cs
      | Some NaN \<Rightarrow> present_vals cs
      | Some x \<Rightarrow> x # present_vals cs)"

definition flt_max :: "flt \<Rightarrow> flt \<Rightarrow> flt" where
  "flt_max a b = (if flt_lt a b then b else a)"

definition flt_min :: "flt \<Rightarrow> flt \<Rightarrow> flt" where
  "flt_min a b = (if flt_lt b a then b else a)"

definition series_max :: "cell list \<Rightarrow> error + flt" where
  "series_max cs =
     (if list_ex (\<lambda>c. cell_num c = None) cs then Inl TypeError
      else (case present_vals cs of [] \<Rightarrow> Inr NaN | x # xs \<Rightarrow> Inr (fold flt_max xs x)))"

definition series_min :: "cell list \<Rightarrow> error + flt" where
  "series_min cs =
     (if list_ex (\<lambda>c. cell_num c = None) cs then Inl TypeError
      else (case present_vals cs of [] \<Rightarrow> Inr NaN | x # xs \<Rightarrow> Inr (fold flt_min xs x)))"

text \<open>
  The loop of \<^verbatim>\<open>Total.get_si\<close>: for each vehicle id, the rows of that id, and
  \<^verbatim>\<open>value + max - min\<close> of the column over them, the sum first and the difference
  second. The value starts as the Python float 0.0; maximum and minimum are numpy scalars.
\<close>

fun Total_loop :: "data_frame \<Rightarrow> string \<Rightarrow> cell list \<Rightarrow> scalar \<Rightarrow> error + scalar" where
  "Total_loop df column [] val = Inr val"
| "Total_loop df column (vehicle_id # ids) val =
     (case get_column df ''id'' of
        Inl e \<Rightarrow> Inl e
      | Inr id_col \<Rightarrow>
         (let id_data = select_rows df (map (\<lambda>c. py_eq c vehicle_id) id_col) in
          case get_column id_data column of
            Inl e \<Rightarrow> Inl e
          | Inr col \<Rightarrow>
             (case series_max col of
                Inl e \<Rightarrow> Inl e
              | Inr mx \<Rightarrow>
                 (case series_min col of
                    Inl e \<Rightarrow> Inl e
                  | Inr mn \<Rightarrow>
                      Total_loop df column ids
                        (num_sub (num_add val (NpFloat mx)) (NpFloat mn))))))"

definition Total_compute :: "string \<Rightarrow> data_frame \<Rightarrow> error + scalar" where
  "Total_compute column df =
     (case get_column df ''id'' of
        Inl e \<Rightarrow> Inl e
      | Inr id_col \<Rightarrow> Total_loop df column (unique id_col) (PyFloat (Fin 0)))"

text \<open>
  A \<^verbatim>\<open>Total\<close> object: its column and its cache, the value and the trace file it was
  computed for, both \<^verbatim>\<open>None\<close> at construction and assigned together.
\<close>

record total =
  total_column :: string
  total_value :: "scalar option"
  total_trace_file :: "ref option"

definition Total_init :: "string \<Rightarrow> total" where
  "Total_init column = \<lparr>total_column = column, total_value = None, total_trace_file = None\<rparr>"

definition TotalTimeSpent_init :: total where
  "TotalTimeSpent_init = Total_init ''t (s)''"

definition TotalDistanceTraveled_init :: total where
  "TotalDistanceTraveled_init = Total_init ''pos (m)''"

text \<open>
  \<^verbatim>\<open>Total.get_si\<close>, returning the outcome and the object afterwards. An exception leaves
  the object as it was: the two assignments come after everything that can raise. The last
  line returns \<^verbatim>\<open>self._value\<close>; it is \<^verbatim>\<open>None\<close> only in an object whose trace file is
  set and whose value is not, which the source never builds, and which the callers, who
  divide by and multiply the result, could not use.
\<close>

definition Total_get_si :: "heap \<Rightarrow> total \<Rightarrow> ref \<Rightarrow> (error + scalar) \<times> total" where
  "Total_get_si h s r =
     (case check_column (total_column s) (h r) of
        Inl e \<Rightarrow> (Inl e, s)
      | Inr _ \<Rightarrow>
         (case check_column ''id'' (h r) of
            Inl e \<Rightarrow> (Inl e, s)
          | Inr _ \<Rightarrow>
             (if total_trace_file s \<noteq> Some r then
                (case get_data_frame (h r) of
                   Inl e \<Rightarrow> (Inl e, s)
                 | Inr df \<Rightarrow>
                    (case Total_compute (total_column s) df of
                       Inl e \<Rightarrow> (Inl e, s)
                     | Inr v \<Rightarrow> (Inr v, s\<lparr>total_value := Some v, total_trace_file := Some r\<rparr>)))
              else (case total_value s of None \<Rightarrow> (Inl TypeError, s) | Some v \<Rightarrow> (Inr v, s)))))"

text \<open>
  The statistics. \<^verbatim>\<open>Total\<close> objects live in a heap of their own, so that several
  statistics share one; a composed statistic holds the references it was given.
\<close>

type_synonym sref = nat

type_synonym sheap = "sref \<Rightarrow> total"

datatype statistic =
    TotalTimeSpent sref
  | TotalDistanceTraveled sref
  | MeanSpeed sref sref
  | Density sref area
  | Flow sref area
  | NumberOfLaneChanges

fun get_label :: "statistic \<Rightarrow> string" where
  "get_label (TotalTimeSpent _) = ''Total time spent''"
| "get_label (TotalDistanceTraveled _) = ''Total distance traveled''"
| "get_label (MeanSpeed _ _) = ''Mean speed''"
| "get_label (Density _ _) = ''Density''"
| "get_label (Flow _ _) = ''Flow''"
| "get_label NumberOfLaneChanges = ''Number of lane changes''"

fun get_unit :: "statistic \<Rightarrow> string" where
  "get_unit (TotalTimeSpent _) = ''h''"
| "get_unit (TotalDistanceTraveled _) = ''km''"
| "get_unit (MeanSpeed _ _) = ''km/h''"
| "get_unit (Density _ _) = ''/km''"
| "get_unit (Flow _ _) = ''/h''"
| "get_unit NumberOfLaneChanges = ''-''"

fun get_unit_si :: "statistic \<Rightarrow> string" where
  "get_unit_si (TotalTimeSpent _) = ''s''"
| "get_unit_si (TotalDistanceTraveled _) = ''m''"
| "get_unit_si (MeanSpeed _ _) = ''m/s''"
| "get_unit_si (Density _ _) = ''/m''"
| "get_unit_si (Flow _ _) = ''/s''"
| "get_unit_si NumberOfLaneChanges = ''-''"

text \<open>\<^verbatim>\<open>Total.get_si\<close> on the object behind a reference.\<close>

definition Total_get_si_at :: "heap \<Rightarrow> sref \<Rightarrow> ref \<Rightarrow> sheap \<Rightarrow> (error + scalar) \<times> sheap" where
  "Total_get_si_at h a r \<sigma> =
     (case Total_get_si h (\<sigma> a) r of (x, s') \<Rightarrow> (x, \<sigma>(a := s')))"

text \<open>What follows a call that may have raised: the exception goes on, a value is used.\<close>

definition and_then :: "(error + scalar) \<times> sheap \<Rightarrow> (scalar \<Rightarrow> error + scalar) \<Rightarrow> (error + scalar) \<times> sheap" where
  "and_then m f = (case m of (Inl e, \<sigma>) \<Rightarrow> (Inl e, \<sigma>) | (Inr v, \<sigma>) \<Rightarrow> (f v, \<sigma>))"

text \<open>
  \<^verbatim>\<open>NumberOfLaneChanges.get\<close>: two column checks and the number of rows, a Python int,
  held here as the float of the same value.
\<close>

definition NumberOfLaneChanges_get :: "heap \<Rightarrow> ref \<Rightarrow> error + scalar" where
  "NumberOfLaneChanges_get h r =
     (case check_column ''fromln'' (h r) of
        Inl e \<Rightarrow> Inl e
      | Inr _ \<Rightarrow>
         (case check_column ''tolane'' (h r) of
            Inl e \<Rightarrow> Inl e
          | Inr _ \<Rightarrow>
             (case get_data_frame (h r) of
                Inl e \<Rightarrow> Inl e
              | Inr df \<Rightarrow> Inr (PyFloat (Fin (of_nat (length (rows df))))))))"

text \<open>
  \<^verbatim>\<open>get_si\<close>. \<^verbatim>\<open>MeanSpeed\<close> evaluates the distance first, then the time, then divides.
  The area of an \<^verbatim>\<open>Area\<close> is a Python float.
\<close>

fun get_si :: "heap \<Rightarrow> statistic \<Rightarrow> ref \<Rightarrow> sheap \<Rightarrow> (error + scalar) \<times> sheap" where
  "get_si h (TotalTimeSpent a) r \<sigma> = Total_get_si_at h a r \<sigma>"
| "get_si h (TotalDistanceTraveled a) r \<sigma> = Total_get_si_at h a r \<sigma>"
| "get_si h (MeanSpeed total_time_spent total_distance_traveled) r \<sigma> =
     (case Total_get_si_at h total_distance_traveled r \<sigma> of
        (Inl e, \<sigma>1) \<Rightarrow> (Inl e, \<sigma>1)
      | (Inr d, \<sigma>1) \<Rightarrow> and_then (Total_get_si_at h total_time_spent r \<sigma>1) (\<lambda>t. truediv d t))"
| "get_si h (Density a ar) r \<sigma> =
     and_then (Total_get_si_at h a r \<sigma>) (\<lambda>v. truediv v (PyFloat (get_area ar)))"
| "get_si h (Flow a ar) r \<sigma> =
     and_then (Total_get_si_at h a r \<sigma>) (\<lambda>v. truediv v (PyFloat (get_area ar)))"
| "get_si h NumberOfLaneChanges r \<sigma> = (NumberOfLaneChanges_get h r, \<sigma>)"

text \<open>
  \<^verbatim>\<open>get\<close>: the value in the preferred unit. The literals are Python floats; 3.6 is the
  double nearest to it, 1000.0 and 3600.0 are exact.
\<close>

fun get :: "heap \<Rightarrow> statistic \<Rightarrow> ref \<Rightarrow> sheap \<Rightarrow> (error + scalar) \<times> sheap" where
  "get h (TotalTimeSpent a) r \<sigma> =
     and_then (get_si h (TotalTimeSpent a) r \<sigma>) (\<lambda>v. truediv v (PyFloat (Fin 3600)))"
| "get h (TotalDistanceTraveled a) r \<sigma> =
     and_then (get_si h (TotalDistanceTraveled a) r \<sigma>) (\<lambda>v. truediv v (PyFloat (Fin 1000)))"
| "get h (MeanSpeed a b) r \<sigma> =
     and_then (get_si h (MeanSpeed a b) r \<sigma>) (\<lambda>v. Inr (num_mul v (PyFloat (round64 3.6))))"
| "get h (Density a ar) r \<sigma> =
     and_then (get_si h (Density a ar) r \<sigma>) (\<lambda>v. Inr (num_mul v (PyFloat (Fin 1000))))"
| "get h (Flow a ar) r \<sigma> =
     and_then (get_si h (Flow a ar) r \<sigma>) (\<lambda>v. Inr (num_mul v (PyFloat (Fin 3600))))"
| "get h NumberOfLaneChanges r \<sigma> = (NumberOfLaneChanges_get h r, \<sigma>)"

text \<open>The constant of each statistic's rescale, as the spec lists them, a real number.\<close>

fun rescale :: "statistic \<Rightarrow> real" where
  "rescale (TotalTimeSpent _) = 1 / 3600"
| "rescale (TotalDistanceTraveled _) = 1 / 1000"
| "rescale (MeanSpeed _ _) = 3.6"
| "rescale (Density _ _) = 1000"
| "rescale (Flow _ _) = 3600"
| "rescale NumberOfLaneChanges = 1"

text \<open>
  The spec's reading of a total: over the distinct vehicle ids, the sum of the width of the
  column's values on that id's rows, as a sum of real numbers.
\<close>

fun cell_real :: "cell \<Rightarrow> real" where
  "cell_real (IntV i) = of_int i"
| "cell_real (FloatV (Fin x)) = x"
| "cell_real _ = 0"

definition rows_of_id :: "data_frame \<Rightarrow> cell \<Rightarrow> cell list list" where
  "rows_of_id df vid = filter (\<lambda>row. field df ''id'' row = vid) (rows df)"

definition max_of_id :: "data_frame \<Rightarrow> string \<Rightarrow> cell \<Rightarrow> real" where
  "max_of_id df c vid = Max ((\<lambda>row. cell_real (field df c row)) ` set (rows_of_id df vid))"

definition min_of_id :: "data_frame \<Rightarrow> string \<Rightarrow> cell \<Rightarrow> real" where
  "min_of_id df c vid = Min ((\<lambda>row. cell_real (field df c row)) ` set (rows_of_id df vid))"

definition width_of_id :: "data_frame \<Rightarrow> string \<Rightarrow> cell \<Rightarrow> real" where
  "width_of_id df c vid = max_of_id df c vid - min_of_id df c vid"

definition spec_total :: "data_frame \<Rightarrow> string \<Rightarrow> real" where
  "spec_total df c = (\<Sum>vid \<in> field df ''id'' ` set (rows df). width_of_id df c vid)"

text \<open>
  What the loop accumulates in doubles: for each id in turn, the value plus the maximum,
  rounded, minus the minimum, rounded. The ids come in the order of their first appearance.
\<close>

fun accumulate :: "data_frame \<Rightarrow> string \<Rightarrow> cell list \<Rightarrow> flt \<Rightarrow> flt" where
  "accumulate df c [] v = v"
| "accumulate df c (vid # ids) v =
     accumulate df c ids (fsub (fadd v (Fin (max_of_id df c vid))) (Fin (min_of_id df c vid)))"

definition first_seen :: "cell list \<Rightarrow> cell list" where
  "first_seen ids = rev (remdups (rev ids))"

definition accumulated_total :: "data_frame \<Rightarrow> string \<Rightarrow> scalar" where
  "accumulated_total df c =
     (if rows df = [] then PyFloat (Fin 0)
      else NpFloat (accumulate df c (first_seen (map (field df ''id'') (rows df))) (Fin 0)))"

definition finite_column :: "data_frame \<Rightarrow> string \<Rightarrow> bool" where
  "finite_column df c = list_all (\<lambda>row. \<exists>x. cell_num (field df c row) = Some (Fin x)) (rows df)"

definition int_column :: "data_frame \<Rightarrow> string \<Rightarrow> bool" where
  "int_column df c = list_all (\<lambda>row. \<exists>i. field df c row = IntV i) (rows df)"

text \<open>
  The body of \<^verbatim>\<open>Total.get_si\<close> without its cache: the two column checks and the loop.
\<close>

definition Total_uncached :: "string \<Rightarrow> trace_file \<Rightarrow> error + scalar" where
  "Total_uncached column tf =
     (case check_column column tf of
        Inl e \<Rightarrow> Inl e
      | Inr _ \<Rightarrow>
         (case check_column ''id'' tf of
            Inl e \<Rightarrow> Inl e
          | Inr _ \<Rightarrow>
             (case get_data_frame tf of
                Inl e \<Rightarrow> Inl e
              | Inr df \<Rightarrow> Total_compute column df)))"

text \<open>A cache is coherent when its value is what the loop gives on its trace file.\<close>

definition cache_ok :: "heap \<Rightarrow> total \<Rightarrow> bool" where
  "cache_ok h s =
     (case total_trace_file s of
        None \<Rightarrow> True
      | Some r \<Rightarrow>
          (case h r of
             None \<Rightarrow> False
           | Some df \<Rightarrow>
               (case Total_compute (total_column s) df of
                  Inl e \<Rightarrow> False
                | Inr v \<Rightarrow> total_value s = Some v)))"

text \<open>
  The states of a \<^verbatim>\<open>Total\<close> object of column \<open>c\<close>: the fresh object, and what a call of
  \<^verbatim>\<open>get_si\<close> leaves of one.
\<close>

inductive reachable :: "heap \<Rightarrow> string \<Rightarrow> total \<Rightarrow> bool" for h :: heap and c :: string where
  fresh: "reachable h c (Total_init c)"
| call: "reachable h c s \<Longrightarrow> Total_get_si h s r = (x, s') \<Longrightarrow> reachable h c s'"

section \<open>Tables (table.py)\<close>

text \<open>
  \<^verbatim>\<open>len(statistics) is not len(trace_files)\<close> compares the identity of two int objects.
  CPython keeps one object for each int from -5 to 256, and \<^verbatim>\<open>len\<close> makes a new object
  for any other, so two lengths are the same object exactly when they are equal and at most
  256.
\<close>

definition len_is :: "nat \<Rightarrow> nat \<Rightarrow> bool" where
  "len_is m n = (m = n \<and> m \<le> 256)"

record table =
  labels :: "string list"
  tvalues :: "scalar list"
  units :: "string list"

fun Table_loop :: "heap \<Rightarrow> statistic list \<Rightarrow> ref list \<Rightarrow> nat list \<Rightarrow> table \<Rightarrow> sheap \<Rightarrow> (error + table) \<times> sheap" where
  "Table_loop h statistics trace_files [] acc \<sigma> = (Inr acc, \<sigma>)"
| "Table_loop h statistics trace_files (i # rest) acc \<sigma> =
     (if \<not> i < length trace_files then (Inl IndexError, \<sigma>)
      else
        (case get h (statistics ! i) (trace_files ! i) \<sigma> of
           (Inl e, \<sigma>1) \<Rightarrow> (Inl e, \<sigma>1)
         | (Inr v, \<sigma>1) \<Rightarrow>
             Table_loop h statistics trace_files rest
               \<lparr>labels = labels acc @ [get_label (statistics ! i)],
                tvalues = tvalues acc @ [v],
                units = units acc @ [get_unit (statistics ! i)]\<rparr> \<sigma>1))"

definition Table_init :: "heap \<Rightarrow> statistic list \<Rightarrow> ref list \<Rightarrow> sheap \<Rightarrow> (error + table) \<times> sheap" where
  "Table_init h statistics trace_files \<sigma> =
     (if \<not> len_is (length statistics) (length trace_files)
      then (Inl (ValueError unequal_length_msg), \<sigma>)
      else Table_loop h statistics trace_files [0..<length statistics]
             \<lparr>labels = [], tvalues = [], units = []\<rparr> \<sigma>)"

section \<open>Example data\<close>

text \<open>
  The dataset of the spec's first scenario: vehicle 1 at t = 0, 1, 2, 3 and pos = 0, 10, 20,
  30; vehicle 2 at t = 1, 2 and pos = 5, 15.
\<close>

definition scenario_frame :: data_frame where
  "scenario_frame =
     \<lparr>columns = [''id'', ''t (s)'', ''pos (m)''],
      rows = [[IntV 1, FloatV (Fin 0), FloatV (Fin 0)],
              [IntV 1, FloatV (Fin 1), FloatV (Fin 10)],
              [IntV 2, FloatV (Fin 1), FloatV (Fin 5)],
              [IntV 1, FloatV (Fin 2), FloatV (Fin 20)],
              [IntV 2, FloatV (Fin 2), FloatV (Fin 15)],
              [IntV 1, FloatV (Fin 3), FloatV (Fin 30)]]\<rparr>"

definition empty_frame :: data_frame where
  "empty_frame = \<lparr>columns = [''id'', ''t (s)'', ''pos (m)''], rows = []\<rparr>"

definition scenario_heap :: heap where
  "scenario_heap = (\<lambda>r. if r = 0 then Some scenario_frame
                         else if r = 1 then Some scenario_frame
                         else if r = 2 then Some empty_frame
                         else None)"

definition fresh_totals :: sheap where
  "fresh_totals = (\<lambda>a. if a = 0 then TotalTimeSpent_init else TotalDistanceTraveled_init)"



definition example_area :: area where
  "example_area =
     \<lparr>area_value = Fin 4,
      t_filter = \<lparr>range_column = ''t (s)'', range_min = Fin 0, range_max = Fin 2,
                  min_inclusive = True, max_inclusive = True\<rparr>,
      pos_filter = \<lparr>range_column = ''pos (m)'', range_min = Fin 0, range_max = Fin 2,
                    min_inclusive = True, max_inclusive = True\<rparr>\<rparr>"

text \<open>A box without duration, \<^verbatim>\<open>Area(5.0, 5.0, 0.0, 100.0)\<close>: its area is zero.\<close>

definition flat_area :: area where
  "flat_area =
     \<lparr>area_value = Fin 0,
      t_filter = \<lparr>range_column = ''t (s)'', range_min = Fin 5, range_max = Fin 5,
                  min_inclusive = True, max_inclusive = True\<rparr>,
      pos_filter = \<lparr>range_column = ''pos (m)'', range_min = Fin 0, range_max = Fin 100,
                    min_inclusive = True, max_inclusive = True\<rparr>\<rparr>"

text \<open>
  Two vehicles, the second far along the time axis: at 1e16 the doubles are 2 apart.
\<close>

definition wide_frame :: data_frame where
  "wide_frame =
     \<lparr>columns = [''id'', ''t (s)''],
      rows = [[IntV 1, FloatV (Fin 0)],
              [IntV 1, FloatV (Fin 1)],
              [IntV 2, FloatV (Fin 10000000000000000)],
              [IntV 2, FloatV (Fin 10000000000000000)]]\<rparr>"

text \<open>One vehicle, seen at t = 0 and t = 3.\<close>

definition short_frame :: data_frame where
  "short_frame =
     \<lparr>columns = [''id'', ''t (s)''],
      rows = [[IntV 1, FloatV (Fin 0)], [IntV 1, FloatV (Fin 3)]]\<rparr>"

definition example_heap :: heap where
  "example_heap = (\<lambda>r. if r = 0 then Some wide_frame
                        else if r = 2 then Some short_frame
                        else None)"

section \<open>Rounding to double\<close>

lemma rhe_of_int [simp]: "rhe (of_int z) = z"
  by (simp add: rhe_def)

lemma floor_log2_eqI:
  assumes "2 powi e \<le> x" and "x < 2 powi (e + 1)"
  shows "\<lfloor>log 2 x\<rfloor> = e"
proof -
  have "0 < (2::real) powi e" by simp
  then have pos: "0 < x" using assms(1) by linarith
  have "(2::real) powr real_of_int e = 2 powi e"
    and "(2::real) powr real_of_int (e + 1) = 2 powi (e + 1)"
    by (rule powr_real_of_int'; simp)+
  then show ?thesis
    using assms floor_log_eq_powr_iff [OF pos, of 2 e] by simp
qed

lemma round64_eval:
  assumes "2 powi e \<le> \<bar>x\<bar>" and "\<bar>x\<bar> < 2 powi (e + 1)" and "- 1022 \<le> e"
    and "rhe (x / 2 powi (e - 52)) = m" and "\<bar>real_of_int m * 2 powi (e - 52)\<bar> < 2 ^ 1024"
  shows "round64 x = Fin (of_int m * 2 powi (e - 52))"
proof -
  have "0 < (2::real) powi e" by simp
  with assms(1) have "0 < \<bar>x\<bar>" by linarith
  then have nz: "x \<noteq> 0" by simp
  have "\<lfloor>log 2 \<bar>x\<bar>\<rfloor> = e" by (rule floor_log2_eqI [OF assms(1,2)])
  then have "ulp64 x = 2 powi (e - 52)"
    using assms(3) by (simp add: ulp64_def exponent64_def)
  then show ?thesis
    using nz assms(4,5) by (simp add: round64_def Let_def)
qed

lemma round64_of_int:
  assumes "\<bar>n\<bar> < 2 ^ 53"
  shows "round64 (of_int n) = Fin (of_int n)"
proof (cases "n = 0")
  case True
  then show ?thesis by (simp add: round64_def)
next
  case False
  define a where "a = \<bar>real_of_int n\<bar>"
  define e where "e = \<lfloor>log 2 a\<rfloor>"
  have a1: "1 \<le> a" using False by (simp add: a_def)
  have a2: "a < 2 ^ 53"
  proof -
    have "real_of_int \<bar>n\<bar> < real_of_int (2 ^ 53)" using assms by (simp only: of_int_less_iff)
    then show ?thesis by (simp add: a_def)
  qed
  have e0: "0 \<le> e" using a1 by (simp add: e_def zero_le_log_cancel_iff)
  have "log 2 a < 53"
    using a1 a2 by (subst log_less_iff) (auto simp: powr_realpow [symmetric])
  then have "e < 53" by (simp add: e_def floor_less_iff)
  then have e52: "e \<le> 52" by simp
  define k where "k = nat (52 - e)"
  have ke: "int k = 52 - e" using e52 by (simp add: k_def)
  have u: "ulp64 (of_int n) = 1 / 2 ^ k"
  proof -
    have "exponent64 (of_int n) = e"
      using e0 by (simp add: exponent64_def e_def a_def)
    then have "ulp64 (of_int n) = 2 powi (- int k)" by (simp add: ulp64_def ke)
    then show ?thesis by (simp add: power_int_minus_divide)
  qed
  have q: "real_of_int n / ulp64 (of_int n) = of_int (n * 2 ^ k)" by (simp add: u)
  have y: "of_int (rhe (real_of_int n / ulp64 (of_int n))) * ulp64 (of_int n) = real_of_int n"
    unfolding q rhe_of_int by (simp add: u)
  have "\<bar>real_of_int n\<bar> < 2 ^ 1024"
  proof -
    have "(2::real) ^ 53 \<le> 2 ^ 1024" by (rule power_increasing) simp_all
    then show ?thesis using a2 by (simp add: a_def)
  qed
  then show ?thesis
    using False by (simp add: round64_def Let_def y del: of_int_mult)
qed

lemma round64_numeral [simp]:
  "(numeral k :: int) < 2 ^ 53 \<Longrightarrow> round64 (numeral k) = Fin (numeral k)"
  using round64_of_int [of "numeral k"] by simp

lemma round64_0 [simp]: "round64 0 = Fin 0"
  by (simp add: round64_def)

lemma round64_1 [simp]: "round64 1 = Fin 1"
  using round64_of_int [of 1] by simp

section \<open>Range construction\<close>

lemma flt_le_not_gt: "flt_le a b \<Longrightarrow> \<not> flt_gt a b"
  by (cases a; cases b) auto

text \<open>
  C8. \<^verbatim>\<open>Range\<close> construction raises the invalid-argument \<^verbatim>\<open>ValueError\<close> exactly when
  minimum > maximum: it fails for every a > b and succeeds, storing its arguments, for every
  a \<le> b.
\<close>

theorem Range_init_raises_iff_min_gt_max:
  "(isl (Range_init c a b i j) \<longleftrightarrow> flt_gt a b) \<and>
   (flt_gt a b \<longrightarrow> Range_init c a b i j = Inl (ValueError invalid_range_msg)) \<and>
   (flt_le a b \<longrightarrow>
      Range_init c a b i j =
        Inr \<lparr>range_column = c, range_min = a, range_max = b,
             min_inclusive = i, max_inclusive = j\<rparr>)"
  by (auto simp: Range_init_def dest: flt_le_not_gt)

theorem Range_init_raises_iff_min_gt_max_witness:
  "flt_gt (Fin 3) (Fin 1) \<and> flt_le (Fin 1) (Fin 3) \<and>
   isl (Range_init ''t (s)'' (Fin 3) (Fin 1) True False) \<and>
   Range_init ''t (s)'' (Fin 3) (Fin 1) True False = Inl (ValueError invalid_range_msg) \<and>
   Range_init ''t (s)'' (Fin 1) (Fin 3) True False =
     Inr \<lparr>range_column = ''t (s)'', range_min = Fin 1, range_max = Fin 3,
          min_inclusive = True, max_inclusive = False\<rparr>"
  using Range_init_raises_iff_min_gt_max [of "''t (s)''" "Fin 3" "Fin 1" True False]
        Range_init_raises_iff_min_gt_max [of "''t (s)''" "Fin 1" "Fin 3" True False]
  by simp

section \<open>Applying a range\<close>

lemma series_cmp_numeric:
  "list_all (\<lambda>c. cell_num c \<noteq> None) cs \<Longrightarrow>
   series_cmp opr cs b =
     Inr (map (\<lambda>c. case cell_num c of None \<Rightarrow> False | Some x \<Rightarrow> opr x b) cs)"
  by (induction cs) auto

lemma select_map_filter: "map fst (filter snd (zip xs (map P xs))) = filter P xs"
  by (induction xs) auto

lemma conj_zip_map:
  "map (\<lambda>(x, y). x \<and> y) (zip (map f xs) (map g xs)) = map (\<lambda>x. f x \<and> g x) xs"
  by (induction xs) auto

lemma Range_apply_numeric:
  assumes "range_column r \<in> set (columns df)" and "numeric_column df (range_column r)"
  shows "Range_apply r df =
     Inr (df\<lparr>rows := filter (\<lambda>row. satisfies_bounds (min_inclusive r) (max_inclusive r)
                (range_min r) (range_max r) (field df (range_column r) row)) (rows df)\<rparr>)"
proof -
  let ?col = "map (field df (range_column r)) (rows df)"
  have num: "list_all (\<lambda>c. cell_num c \<noteq> None) ?col"
    using assms(2) by (simp add: numeric_column_def list_all_iff)
  have col: "get_column df (range_column r) = Inr ?col"
    using assms(1) by (simp add: get_column_def)
  show ?thesis
    unfolding Range_apply_def col
    by (cases "min_inclusive r"; cases "max_inclusive r")
       (simp_all add: series_cmp_numeric [OF num] select_rows_def conj_zip_map comp_def
          select_map_filter satisfies_bounds_def split: option.splits cong: filter_cong)
qed

text \<open>
  C4. For a range built from a \<le> b and a data frame that has the column, with numbers in it
  (a comparison of a string with a float raises), \<^verbatim>\<open>apply\<close> keeps exactly the rows whose
  value satisfies the inequality configured at each bound, whatever the two inclusivity
  flags; the columns are unchanged and the kept rows are in their original order.
\<close>

theorem Range_apply_retains_exactly:
  assumes "flt_le a b" and "c \<in> set (columns df)" and "numeric_column df c"
  shows "\<exists>r df'. Range_init c a b incl_min incl_max = Inr r \<and> Range_apply r df = Inr df' \<and>
           columns df' = columns df \<and>
           rows df' =
             filter (\<lambda>row. satisfies_bounds incl_min incl_max a b (field df c row)) (rows df) \<and>
           subseq (rows df') (rows df)"
proof -
  let ?r = "\<lparr>range_column = c, range_min = a, range_max = b,
             min_inclusive = incl_min, max_inclusive = incl_max\<rparr>"
  have "Range_init c a b incl_min incl_max = Inr ?r"
    using assms(1) by (simp add: Range_init_def flt_le_not_gt)
  moreover have "Range_apply ?r df =
      Inr (df\<lparr>rows := filter (\<lambda>row. satisfies_bounds incl_min incl_max a b (field df c row))
                         (rows df)\<rparr>)"
    using Range_apply_numeric [of ?r df] assms(2,3) by simp
  ultimately show ?thesis by simp
qed

theorem Range_apply_retains_exactly_witness:
  "flt_le (Fin 1) (Fin 2) \<and> ''t (s)'' \<in> set (columns scenario_frame) \<and>
   numeric_column scenario_frame ''t (s)'' \<and>
   Range_apply \<lparr>range_column = ''t (s)'', range_min = Fin 1, range_max = Fin 2,
                min_inclusive = False, max_inclusive = True\<rparr> scenario_frame =
     Inr \<lparr>columns = [''id'', ''t (s)'', ''pos (m)''],
          rows = [[IntV 1, FloatV (Fin 2), FloatV (Fin 20)],
                  [IntV 2, FloatV (Fin 2), FloatV (Fin 15)]]\<rparr>"
proof -
  have h1: "flt_le (Fin 1) (Fin 2)" by simp
  have h2: "''t (s)'' \<in> set (columns scenario_frame)" by (simp add: scenario_frame_def)
  have h3: "numeric_column scenario_frame ''t (s)''"
    by (simp add: numeric_column_def scenario_frame_def field_def cell_at_def)
  from Range_apply_retains_exactly [OF h1 h2 h3, of False True]
  obtain r df' where r: "Range_init ''t (s)'' (Fin 1) (Fin 2) False True = Inr r"
    and ap: "Range_apply r scenario_frame = Inr df'"
    and cols: "columns df' = columns scenario_frame"
    and rws: "rows df' = filter (\<lambda>row. satisfies_bounds False True (Fin 1) (Fin 2)
                 (field scenario_frame ''t (s)'' row)) (rows scenario_frame)"
    by blast
  have "r = \<lparr>range_column = ''t (s)'', range_min = Fin 1, range_max = Fin 2,
              min_inclusive = False, max_inclusive = True\<rparr>"
    using r by (simp add: Range_init_def)
  moreover have "df' = \<lparr>columns = [''id'', ''t (s)'', ''pos (m)''],
          rows = [[IntV 1, FloatV (Fin 2), FloatV (Fin 20)],
                  [IntV 2, FloatV (Fin 2), FloatV (Fin 15)]]\<rparr>"
    using cols rws
    by (simp add: scenario_frame_def satisfies_bounds_def field_def cell_at_def)
  ultimately show ?thesis using h1 h2 h3 ap by simp
qed

section \<open>Area construction\<close>

text \<open>
  C5, as the code has it. \<^verbatim>\<open>Area\<close> construction builds its two ranges with
  \<^verbatim>\<open>Range.__init__\<close>, which validates: the construction raises the invalid-argument
  \<^verbatim>\<open>ValueError\<close> exactly when min\_t > max\_t or min\_pos > max\_pos, and an area that
  was constructed returns (max\_t - min\_t) * (max\_pos - min\_pos) from \<^verbatim>\<open>get_area\<close>.
\<close>

theorem Area_init_validates_through_Range:
  "(isl (Area_init min_t max_t min_pos max_pos) \<longleftrightarrow>
      flt_gt min_t max_t \<or> flt_gt min_pos max_pos) \<and>
   (flt_gt min_t max_t \<or> flt_gt min_pos max_pos \<longrightarrow>
      Area_init min_t max_t min_pos max_pos = Inl (ValueError invalid_range_msg)) \<and>
   (\<forall>a. Area_init min_t max_t min_pos max_pos = Inr a \<longrightarrow>
      get_area a = fmul (fsub max_t min_t) (fsub max_pos min_pos))"
  by (auto simp: Area_init_def Range_init_def get_area_def Let_def)

theorem Area_init_validates_through_Range_witness:
  "\<not> (flt_gt (Fin 0) (Fin 10) \<or> flt_gt (Fin 0) (Fin 100)) \<and>
   \<not> isl (Area_init (Fin 0) (Fin 10) (Fin 0) (Fin 100)) \<and>
   (case Area_init (Fin 0) (Fin 10) (Fin 0) (Fin 100) of
      Inl e \<Rightarrow> False
    | Inr a \<Rightarrow> get_area a = Fin 1000) \<and>
   flt_gt (Fin 0) (Fin (- 5)) \<and>
   Area_init (Fin 0) (Fin 10) (Fin 0) (Fin (- 5)) = Inl (ValueError invalid_range_msg)"
  using Area_init_validates_through_Range [of "Fin 0" "Fin 10" "Fin 0" "Fin 100"]
        Area_init_validates_through_Range [of "Fin 0" "Fin 10" "Fin 0" "Fin (- 5)"]
  by (auto split: sum.splits)

text \<open>
  An inverted box does not construct: with max\_t < min\_t the range on time raises.
\<close>

theorem Area_init_inverted_box_raises:
  "Area_init (Fin 10) (Fin 0) (Fin 0) (Fin 100) = Inl (ValueError invalid_range_msg)"
  by (simp add: Area_init_def Range_init_def)

section \<open>Clean-up after parsing\<close>







section \<open>Totals: the loop over the vehicles\<close>

lemma py_eq_IntV [simp]: "py_eq (IntV i) (IntV j) = (i = j)"
  by (simp add: py_eq_def)

lemma same_key_IntV [simp]: "same_key (IntV i) (IntV j) = (i = j)"
  by (simp add: same_key_def isna_def)

lemma unique_of_ints:
  "list_all (\<lambda>c. \<exists>i. c = IntV i) xs \<Longrightarrow> distinct (unique xs) \<and> set (unique xs) = set xs"
proof (induction xs rule: unique.induct)
  case 1
  then show ?case by simp
next
  case (2 x xs)
  from "2.prems" obtain i where x: "x = IntV i" by (auto)
  have xs: "\<forall>y \<in> set xs. \<exists>j. y = IntV j"
    using "2.prems" by (auto simp: list_all_iff)
  have flt: "filter (\<lambda>y. \<not> same_key x y) xs = filter (\<lambda>y. y \<noteq> x) xs"
    using xs x by (intro filter_cong) auto
  have "list_all (\<lambda>c. \<exists>i. c = IntV i) (filter (\<lambda>y. \<not> same_key x y) xs)"
    using xs by (auto simp: list_all_iff)
  from "2.IH" [OF this] show ?case
    by (auto simp: flt)
qed

lemma remdups_snoc: "remdups (ys @ [x]) = filter (\<lambda>y. y \<noteq> x) (remdups ys) @ [x]"
  by (induction ys) auto

lemma first_seen_Cons:
  "first_seen (x # xs) = x # first_seen (filter (\<lambda>y. y \<noteq> x) xs)"
  by (simp add: first_seen_def remdups_snoc rev_filter remdups_filter)

lemma unique_first_seen:
  "list_all (\<lambda>c. \<exists>i. c = IntV i) xs \<Longrightarrow> unique xs = first_seen xs"
proof (induction xs rule: unique.induct)
  case 1
  then show ?case by (simp add: first_seen_def)
next
  case (2 x xs)
  from "2.prems" obtain i where x: "x = IntV i" by (auto)
  have xs: "\<forall>y \<in> set xs. \<exists>j. y = IntV j"
    using "2.prems" by (auto simp: list_all_iff)
  have flt: "filter (\<lambda>y. \<not> same_key x y) xs = filter (\<lambda>y. y \<noteq> x) xs"
    using xs x by (intro filter_cong) auto
  have "list_all (\<lambda>c. \<exists>i. c = IntV i) (filter (\<lambda>y. \<not> same_key x y) xs)"
    using xs by (auto simp: list_all_iff)
  from "2.IH" [OF this] show ?case
    by (simp add: flt first_seen_Cons)
qed

lemma fold_max_Max: "fold max xs (x::real) = Max (set (x # xs))"
  using Max.set_eq_fold [of x xs] by simp

lemma fold_min_Min: "fold min xs (x::real) = Min (set (x # xs))"
  using Min.set_eq_fold [of x xs] by simp

lemma fold_flt_max_Fin:
  "fold flt_max (map (Fin \<circ> f) xs) (Fin x) = Fin (fold max (map f xs) x)"
  by (induction xs arbitrary: x) (auto simp: flt_max_def max_def)

lemma fold_flt_min_Fin:
  "fold flt_min (map (Fin \<circ> f) xs) (Fin x) = Fin (fold min (map f xs) x)"
  by (induction xs arbitrary: x) (auto simp: flt_min_def min_def)

lemma present_vals_finite:
  "list_all (\<lambda>c. \<exists>x. cell_num c = Some (Fin x)) cs \<Longrightarrow>
   present_vals cs = map Fin (map cell_real cs)"
proof (induction cs)
  case Nil then show ?case by simp
next
  case (Cons c cs)
  then show ?case by (cases c rule: cell_real.cases) auto
qed

lemma series_max_finite:
  assumes "list_all (\<lambda>c. \<exists>x. cell_num c = Some (Fin x)) cs" and "cs \<noteq> []"
  shows "series_max cs = Inr (Fin (Max (cell_real ` set cs)))"
proof -
  have "\<not> list_ex (\<lambda>c. cell_num c = None) cs"
    using assms(1) by (auto simp: list_all_iff list_ex_iff)
  moreover obtain c cs' where "cs = c # cs'" using assms(2) by (cases cs) auto
  ultimately show ?thesis
    using present_vals_finite [OF assms(1)]
    by (simp add: series_max_def fold_flt_max_Fin fold_max_Max del: present_vals.simps)
qed

lemma series_min_finite:
  assumes "list_all (\<lambda>c. \<exists>x. cell_num c = Some (Fin x)) cs" and "cs \<noteq> []"
  shows "series_min cs = Inr (Fin (Min (cell_real ` set cs)))"
proof -
  have "\<not> list_ex (\<lambda>c. cell_num c = None) cs"
    using assms(1) by (auto simp: list_all_iff list_ex_iff)
  moreover obtain c cs' where "cs = c # cs'" using assms(2) by (cases cs) auto
  ultimately show ?thesis
    using present_vals_finite [OF assms(1)]
    by (simp add: series_min_def fold_flt_min_Fin fold_min_Min del: present_vals.simps)
qed

lemma field_rows_update [simp]: "field (df\<lparr>rows := rs\<rparr>) c = field df c"
  by (rule ext) (simp add: field_def)

lemma id_data_rows:
  assumes "int_column df ''id''"
  shows "select_rows df (map (\<lambda>c. py_eq c (IntV i)) (map (field df ''id'') (rows df))) =
         df\<lparr>rows := rows_of_id df (IntV i)\<rparr>"
proof -
  have "filter (\<lambda>row. py_eq (field df ''id'' row) (IntV i)) (rows df) =
        filter (\<lambda>row. field df ''id'' row = IntV i) (rows df)"
    using assms by (intro filter_cong) (auto simp: int_column_def list_all_iff)
  then show ?thesis
    using select_map_filter [of "rows df" "\<lambda>row. py_eq (field df ''id'' row) (IntV i)"]
    by (simp add: select_rows_def rows_of_id_def comp_def)
qed

lemma loop_step_scalar:
  "num_sub (num_add v (NpFloat mx)) (NpFloat mn) = NpFloat (fsub (fadd (as_flt v) mx) mn)"
  by (simp add: num_sub_def num_add_def result_of_def)

lemma Total_loop_accumulate:
  assumes c: "c \<in> set (columns df)" and idc: "''id'' \<in> set (columns df)"
    and fin: "finite_column df c" and ints: "int_column df ''id''"
    and ids: "set ids \<subseteq> field df ''id'' ` set (rows df)"
  shows "Total_loop df c ids v =
           Inr (if ids = [] then v else NpFloat (accumulate df c ids (as_flt v)))"
  using ids
proof (induction ids arbitrary: v)
  case Nil
  then show ?case by simp
next
  case (Cons vid ids)
  from Cons.prems obtain row where row: "row \<in> set (rows df)" "vid = field df ''id'' row"
    by auto
  with ints obtain i where vid: "vid = IntV i"
    by (auto simp: int_column_def list_all_iff)
  let ?part = "rows_of_id df vid"
  let ?col = "map (field df c) ?part"
  have ne: "?col \<noteq> []"
    using row by (auto simp: rows_of_id_def filter_empty_conv)
  have allfin: "list_all (\<lambda>c. \<exists>x. cell_num c = Some (Fin x)) ?col"
    using fin by (auto simp: finite_column_def list_all_iff rows_of_id_def)
  have img: "cell_real ` set ?col = (\<lambda>row. cell_real (field df c row)) ` set ?part"
    by (simp add: image_image)
  have idcol: "get_column df ''id'' = Inr (map (field df ''id'') (rows df))"
    using idc by (simp add: get_column_def)
  have col: "get_column (df\<lparr>rows := ?part\<rparr>) c = Inr ?col"
    using c by (simp add: get_column_def)
  have mx: "series_max ?col = Inr (Fin (max_of_id df c vid))"
    using series_max_finite [OF allfin ne] img by (simp add: max_of_id_def)
  have mn: "series_min ?col = Inr (Fin (min_of_id df c vid))"
    using series_min_finite [OF allfin ne] img by (simp add: min_of_id_def)
  let ?v' = "NpFloat (fsub (fadd (as_flt v) (Fin (max_of_id df c vid))) (Fin (min_of_id df c vid)))"
  have step: "Total_loop df c (vid # ids) v = Total_loop df c ids ?v'"
    using id_data_rows [OF ints, of i]
    by (simp add: idcol vid [symmetric] col mx mn loop_step_scalar del: map_map)
  have "set ids \<subseteq> field df ''id'' ` set (rows df)" using Cons.prems by simp
  from Cons.IH [OF this, of ?v'] step show ?case by simp
qed

lemma Total_compute_accumulated:
  assumes c: "c \<in> set (columns df)" and idc: "''id'' \<in> set (columns df)"
    and fin: "finite_column df c" and ints: "int_column df ''id''"
  shows "Total_compute c df = Inr (accumulated_total df c)"
proof -
  let ?idcol = "map (field df ''id'') (rows df)"
  have ai: "list_all (\<lambda>c. \<exists>i. c = IntV i) ?idcol"
    using ints by (simp add: int_column_def list_all_iff)
  have u: "unique ?idcol = first_seen ?idcol" by (rule unique_first_seen [OF ai])
  have s: "set (unique ?idcol) = field df ''id'' ` set (rows df)"
    using unique_of_ints [OF ai] by simp
  have e: "first_seen ?idcol = [] \<longleftrightarrow> rows df = []"
    by (simp add: first_seen_def)
  have "Total_loop df c (unique ?idcol) (PyFloat (Fin 0)) =
        Inr (if unique ?idcol = [] then PyFloat (Fin 0)
             else NpFloat (accumulate df c (unique ?idcol) (as_flt (PyFloat (Fin 0)))))"
    by (rule Total_loop_accumulate [OF c idc fin ints]) (simp add: s)
  then show ?thesis
    using idc e by (simp add: Total_compute_def get_column_def accumulated_total_def u)
qed

section \<open>Totals: the cache\<close>

lemma reachable_column: "reachable h c s \<Longrightarrow> total_column s = c"
  by (induction rule: reachable.induct)
     (auto simp: Total_init_def Total_get_si_def split: sum.splits if_splits option.splits)

lemma cache_ok_init: "cache_ok h (Total_init c)"
  by (simp add: cache_ok_def Total_init_def)

lemma Total_get_si_miss:
  "total_trace_file s \<noteq> Some r \<Longrightarrow>
   Total_get_si h s r =
     (case Total_uncached (total_column s) (h r) of
        Inl e \<Rightarrow> (Inl e, s)
      | Inr v \<Rightarrow> (Inr v, s\<lparr>total_value := Some v, total_trace_file := Some r\<rparr>))"
  by (simp add: Total_get_si_def Total_uncached_def split: sum.splits)

lemma Total_get_si_hit:
  "total_trace_file s = Some r \<Longrightarrow>
   Total_get_si h s r =
     (case check_column (total_column s) (h r) of
        Inl e \<Rightarrow> (Inl e, s)
      | Inr _ \<Rightarrow>
         (case check_column ''id'' (h r) of
            Inl e \<Rightarrow> (Inl e, s)
          | Inr _ \<Rightarrow>
             (case total_value s of None \<Rightarrow> (Inl TypeError, s) | Some v \<Rightarrow> (Inr v, s))))"
  by (simp add: Total_get_si_def)

lemma cache_ok_hit:
  assumes "cache_ok h s" and "total_trace_file s = Some r"
  obtains df v where "h r = Some df" and "Total_compute (total_column s) df = Inr v"
    and "total_value s = Some v"
  using assms by (auto simp: cache_ok_def split: option.splits sum.splits)

lemma cache_ok_update:
  assumes "h r = Some df" and "Total_compute (total_column s) df = Inr v"
  shows "cache_ok h (s\<lparr>total_value := Some v, total_trace_file := Some r\<rparr>)"
  using assms by (simp add: cache_ok_def)

lemma Total_uncached_Inr:
  assumes "Total_uncached c tf = Inr v"
  obtains df where "tf = Some df" and "Total_compute c df = Inr v"
    and "check_column c tf = Inr ()" and "check_column ''id'' tf = Inr ()"
  using assms
  by (cases tf) (auto simp: Total_uncached_def get_data_frame_def split: sum.splits)

lemma Total_get_si_cache_ok:
  assumes ok: "cache_ok h s"
  shows "fst (Total_get_si h s r) = Total_uncached (total_column s) (h r) \<and>
         cache_ok h (snd (Total_get_si h s r))"
proof (cases "total_trace_file s = Some r")
  case False
  show ?thesis
  proof (cases "Total_uncached (total_column s) (h r)")
    case (Inl e)
    then show ?thesis using False ok by (simp add: Total_get_si_miss)
  next
    case (Inr v)
    then obtain df where "h r = Some df" and "Total_compute (total_column s) df = Inr v"
      by (rule Total_uncached_Inr)
    then have "cache_ok h (s\<lparr>total_value := Some v, total_trace_file := Some r\<rparr>)"
      by (rule cache_ok_update)
    then show ?thesis using False Inr by (simp add: Total_get_si_miss)
  qed
next
  case True
  from ok True obtain df v where df: "h r = Some df"
    and v: "Total_compute (total_column s) df = Inr v" and val: "total_value s = Some v"
    by (rule cache_ok_hit)
  have "fst (Total_get_si h s r) = Total_uncached (total_column s) (h r)"
    by (simp add: Total_get_si_hit [OF True] Total_uncached_def df v val get_data_frame_def
          split: sum.splits)
  moreover have "snd (Total_get_si h s r) = s"
    by (simp add: Total_get_si_hit [OF True] val split: sum.splits)
  ultimately show ?thesis using ok by simp
qed

lemma reachable_cache_ok: "reachable h c s \<Longrightarrow> cache_ok h s"
proof (induction rule: reachable.induct)
  case fresh
  show ?case by (rule cache_ok_init)
next
  case (call s r x s')
  then show ?case using Total_get_si_cache_ok [of h s r] by simp
qed

lemma scenario_compute_t: "Total_compute ''t (s)'' scenario_frame = Inr (NpFloat (Fin 4))"
  by (simp add: Total_compute_def scenario_frame_def get_column_def field_def cell_at_def
      same_key_def py_eq_def isna_def select_rows_def series_max_def series_min_def
      flt_max_def flt_min_def num_add_def num_sub_def result_of_def)

lemma scenario_compute_pos: "Total_compute ''pos (m)'' scenario_frame = Inr (NpFloat (Fin 40))"
  by (simp add: Total_compute_def scenario_frame_def get_column_def field_def cell_at_def
      same_key_def py_eq_def isna_def select_rows_def series_max_def series_min_def
      flt_max_def flt_min_def num_add_def num_sub_def result_of_def)

lemma round64_1e16_plus_1: "round64 10000000000000001 = Fin 10000000000000000"
  using round64_eval [of 53 10000000000000001 5000000000000000]
  by (simp add: rhe_def)

lemma wide_compute: "Total_compute ''t (s)'' wide_frame = Inr (NpFloat (Fin 0))"
  by (simp add: Total_compute_def wide_frame_def get_column_def field_def cell_at_def
      same_key_def py_eq_def isna_def select_rows_def series_max_def series_min_def
      flt_max_def flt_min_def num_add_def num_sub_def result_of_def round64_1e16_plus_1)

lemma wide_ids: "field wide_frame ''id'' ` set (rows wide_frame) = {IntV 1, IntV 2}"
  by (auto simp: wide_frame_def field_def cell_at_def)

lemma wide_spec_total: "spec_total wide_frame ''t (s)'' = 1"
proof -
  have w1: "width_of_id wide_frame ''t (s)'' (IntV 1) = 1"
    by (simp add: width_of_id_def max_of_id_def min_of_id_def rows_of_id_def wide_frame_def
          field_def cell_at_def)
  have w2: "width_of_id wide_frame ''t (s)'' (IntV 2) = 0"
    by (simp add: width_of_id_def max_of_id_def min_of_id_def rows_of_id_def wide_frame_def
          field_def cell_at_def)
  show ?thesis
    unfolding spec_total_def wide_ids by (simp add: w1 w2)
qed

lemma scenario_columns [simp]: "columns scenario_frame = [''id'', ''t (s)'', ''pos (m)'']"
  by (simp add: scenario_frame_def)

lemma empty_frame_simps [simp]:
  "columns empty_frame = [''id'', ''t (s)'', ''pos (m)'']" "rows empty_frame = []"
  by (simp_all add: empty_frame_def)

lemma scenario_heap_simps [simp]:
  "scenario_heap 0 = Some scenario_frame" "scenario_heap (Suc 0) = Some scenario_frame"
  "scenario_heap 2 = Some empty_frame"
  by (simp_all add: scenario_heap_def)

lemma example_heap_simps [simp]:
  "example_heap 0 = Some wide_frame" "example_heap 2 = Some short_frame"
  by (simp_all add: example_heap_def)

lemma scenario_uncached_t:
  "Total_uncached ''t (s)'' (Some scenario_frame) = Inr (NpFloat (Fin 4))"
  by (simp add: Total_uncached_def check_column_def get_data_frame_def scenario_compute_t)

lemma scenario_uncached_pos:
  "Total_uncached ''pos (m)'' (Some scenario_frame) = Inr (NpFloat (Fin 40))"
  by (simp add: Total_uncached_def check_column_def get_data_frame_def scenario_compute_pos)

lemma scenario_finite_t: "finite_column scenario_frame ''t (s)''"
  by (simp add: finite_column_def scenario_frame_def field_def cell_at_def)

lemma scenario_finite_pos: "finite_column scenario_frame ''pos (m)''"
  by (simp add: finite_column_def scenario_frame_def field_def cell_at_def)

lemma scenario_int_id: "int_column scenario_frame ''id''"
  by (simp add: int_column_def scenario_frame_def field_def cell_at_def)

section \<open>Totals: what \<^verbatim>\<open>get_si\<close> returns\<close>

text \<open>
  C1, as the code has it. For a \<^verbatim>\<open>Total\<close> object of column C (\<^verbatim>\<open>'t (s)'\<close> for
  \<^verbatim>\<open>TotalTimeSpent\<close>, \<^verbatim>\<open>'pos (m)'\<close> for \<^verbatim>\<open>TotalDistanceTraveled\<close>) and a trace file whose
  dataset has the columns C, holding finite numbers, and \<^verbatim>\<open>'id'\<close>, holding integers,
  \<^verbatim>\<open>get_si\<close> returns what the loop accumulates in double precision: from 0.0, for each
  distinct id in the order of first appearance, the value plus the maximum of C on that
  id's rows, rounded, minus the minimum of C on them, rounded; the Python float 0.0 when
  there is no row. When C is absent it raises the missing-column \<^verbatim>\<open>ValueError\<close> naming C,
  and when only \<^verbatim>\<open>'id'\<close> is absent the one naming \<^verbatim>\<open>'id'\<close>.
\<close>

theorem Total_get_si_accumulates_widths:
  assumes "reachable h c s" and "h r = Some df"
  shows "(c \<in> set (columns df) \<and> ''id'' \<in> set (columns df) \<and>
          finite_column df c \<and> int_column df ''id'' \<longrightarrow>
            fst (Total_get_si h s r) = Inr (accumulated_total df c)) \<and>
         (c \<notin> set (columns df) \<longrightarrow>
            fst (Total_get_si h s r) = Inl (ValueError (missing_column_msg c))) \<and>
         (c \<in> set (columns df) \<and> ''id'' \<notin> set (columns df) \<longrightarrow>
            fst (Total_get_si h s r) = Inl (ValueError (missing_column_msg ''id'')))"
proof -
  have "fst (Total_get_si h s r) = Total_uncached c (Some df)"
    using Total_get_si_cache_ok [OF reachable_cache_ok [OF assms(1)], of r]
          reachable_column [OF assms(1)] assms(2)
    by simp
  then show ?thesis
    by (auto simp: Total_uncached_def check_column_def get_data_frame_def
          Total_compute_accumulated)
qed

theorem Total_get_si_accumulates_widths_witness:
  "reachable scenario_heap ''t (s)'' TotalTimeSpent_init \<and>
   reachable scenario_heap ''pos (m)'' TotalDistanceTraveled_init \<and>
   reachable scenario_heap ''v (m/s)'' (Total_init ''v (m/s)'') \<and>
   scenario_heap 0 = Some scenario_frame \<and>
   ''t (s)'' \<in> set (columns scenario_frame) \<and> ''pos (m)'' \<in> set (columns scenario_frame) \<and>
   ''id'' \<in> set (columns scenario_frame) \<and> ''v (m/s)'' \<notin> set (columns scenario_frame) \<and>
   finite_column scenario_frame ''t (s)'' \<and> finite_column scenario_frame ''pos (m)'' \<and>
   int_column scenario_frame ''id'' \<and>
   fst (Total_get_si scenario_heap TotalTimeSpent_init 0) = Inr (NpFloat (Fin 4)) \<and>
   accumulated_total scenario_frame ''t (s)'' = NpFloat (Fin 4) \<and>
   fst (Total_get_si scenario_heap TotalDistanceTraveled_init 0) = Inr (NpFloat (Fin 40)) \<and>
   accumulated_total scenario_frame ''pos (m)'' = NpFloat (Fin 40) \<and>
   fst (Total_get_si scenario_heap (Total_init ''v (m/s)'') 0) =
     Inl (ValueError ''Column v (m/s) is not in the provided trace file.'')"
proof -
  have r1: "reachable scenario_heap ''t (s)'' TotalTimeSpent_init"
    unfolding TotalTimeSpent_init_def by (rule reachable.fresh)
  have r2: "reachable scenario_heap ''pos (m)'' TotalDistanceTraveled_init"
    unfolding TotalDistanceTraveled_init_def by (rule reachable.fresh)
  have r3: "reachable scenario_heap ''v (m/s)'' (Total_init ''v (m/s)'')"
    by (rule reachable.fresh)
  have h0: "scenario_heap 0 = Some scenario_frame" by simp
  have e1: "fst (Total_get_si scenario_heap TotalTimeSpent_init 0) = Inr (NpFloat (Fin 4))"
    by (simp add: Total_get_si_miss TotalTimeSpent_init_def Total_init_def scenario_uncached_t)
  have e2: "fst (Total_get_si scenario_heap TotalDistanceTraveled_init 0) = Inr (NpFloat (Fin 40))"
    by (simp add: Total_get_si_miss TotalDistanceTraveled_init_def Total_init_def
          scenario_uncached_pos)
  note t1 = Total_get_si_accumulates_widths [OF r1 h0]
  note t2 = Total_get_si_accumulates_widths [OF r2 h0]
  note t3 = Total_get_si_accumulates_widths [OF r3 h0]
  have s1: "accumulated_total scenario_frame ''t (s)'' = NpFloat (Fin 4)"
    using t1 e1 scenario_finite_t scenario_int_id by simp
  have s2: "accumulated_total scenario_frame ''pos (m)'' = NpFloat (Fin 40)"
    using t2 e2 scenario_finite_pos scenario_int_id by simp
  have m: "fst (Total_get_si scenario_heap (Total_init ''v (m/s)'') 0) =
     Inl (ValueError ''Column v (m/s) is not in the provided trace file.'')"
    using t3 by (simp add: missing_column_msg_def)
  show ?thesis
    using r1 r2 r3 e1 e2 s1 s2 m scenario_finite_t scenario_finite_pos scenario_int_id
    by simp
qed

text \<open>
  Where the doubles are 2 apart the accumulated value is not the sum of the widths: with
  vehicle 1 at t = 0 and 1 and vehicle 2 twice at t = 1e16, the widths are 1 and 0, and
  \<^verbatim>\<open>get_si\<close> returns (1.0 + 1e16) - 1e16 = 0.0.
\<close>

theorem Total_get_si_rounds_away_a_width:
  "reachable example_heap ''t (s)'' TotalTimeSpent_init \<and>
   example_heap 0 = Some wide_frame \<and>
   ''t (s)'' \<in> set (columns wide_frame) \<and> ''id'' \<in> set (columns wide_frame) \<and>
   finite_column wide_frame ''t (s)'' \<and> int_column wide_frame ''id'' \<and>
   spec_total wide_frame ''t (s)'' = 1 \<and>
   fst (Total_get_si example_heap TotalTimeSpent_init 0) = Inr (NpFloat (Fin 0))"
proof -
  have "reachable example_heap ''t (s)'' TotalTimeSpent_init"
    unfolding TotalTimeSpent_init_def by (rule reachable.fresh)
  moreover have "finite_column wide_frame ''t (s)''"
    by (simp add: finite_column_def wide_frame_def field_def cell_at_def)
  moreover have "int_column wide_frame ''id''"
    by (simp add: int_column_def wide_frame_def field_def cell_at_def)
  moreover have "''t (s)'' \<in> set (columns wide_frame) \<and> ''id'' \<in> set (columns wide_frame)"
    by (simp add: wide_frame_def)
  moreover have "fst (Total_get_si example_heap TotalTimeSpent_init 0) = Inr (NpFloat (Fin 0))"
    using \<open>''t (s)'' \<in> set (columns wide_frame) \<and> ''id'' \<in> set (columns wide_frame)\<close>
    by (simp add: Total_get_si_miss TotalTimeSpent_init_def Total_init_def Total_uncached_def
          check_column_def get_data_frame_def wide_compute)
  ultimately show ?thesis by (simp add: wide_spec_total)
qed

text \<open>
  C10. On a trace file whose dataset has the column of the statistic and \<^verbatim>\<open>'id'\<close> but no
  row, \<^verbatim>\<open>get_si\<close> of a \<^verbatim>\<open>Total\<close> object returns 0.0, the Python float the loop starts
  from: the empty sum.
\<close>

theorem Total_get_si_empty_dataset:
  assumes "reachable h c s" and "h r = Some df"
    and "c \<in> set (columns df)" and "''id'' \<in> set (columns df)" and "rows df = []"
  shows "fst (Total_get_si h s r) = Inr (PyFloat (Fin 0))"
proof -
  have "fst (Total_get_si h s r) = Total_uncached c (Some df)"
    using Total_get_si_cache_ok [OF reachable_cache_ok [OF assms(1)], of r]
          reachable_column [OF assms(1)] assms(2)
    by simp
  also have "\<dots> = Inr (PyFloat (Fin 0))"
    using assms(3-5)
    by (simp add: Total_uncached_def check_column_def get_data_frame_def Total_compute_def
          get_column_def)
  finally show ?thesis .
qed

theorem Total_get_si_empty_dataset_witness:
  "reachable scenario_heap ''t (s)'' TotalTimeSpent_init \<and>
   reachable scenario_heap ''pos (m)'' TotalDistanceTraveled_init \<and>
   scenario_heap 2 = Some empty_frame \<and>
   ''t (s)'' \<in> set (columns empty_frame) \<and> ''pos (m)'' \<in> set (columns empty_frame) \<and>
   ''id'' \<in> set (columns empty_frame) \<and> rows empty_frame = [] \<and>
   fst (Total_get_si scenario_heap TotalTimeSpent_init 2) = Inr (PyFloat (Fin 0)) \<and>
   fst (Total_get_si scenario_heap TotalDistanceTraveled_init 2) = Inr (PyFloat (Fin 0))"
proof -
  have r1: "reachable scenario_heap ''t (s)'' TotalTimeSpent_init"
    unfolding TotalTimeSpent_init_def by (rule reachable.fresh)
  have r2: "reachable scenario_heap ''pos (m)'' TotalDistanceTraveled_init"
    unfolding TotalDistanceTraveled_init_def by (rule reachable.fresh)
  have h2: "scenario_heap 2 = Some empty_frame" by simp
  have c1: "''t (s)'' \<in> set (columns empty_frame)" by simp
  have c2: "''pos (m)'' \<in> set (columns empty_frame)" by simp
  have c3: "''id'' \<in> set (columns empty_frame)" by simp
  have e: "rows empty_frame = []" by simp
  show ?thesis
    using Total_get_si_empty_dataset [OF r1 h2 c1 c3 e]
          Total_get_si_empty_dataset [OF r2 h2 c2 c3 e] r1 r2
    by simp
qed

lemma Total_get_si_Inr:
  assumes "Total_get_si h s r = (Inr v, s')"
  shows "total_trace_file s' = Some r \<and> total_value s' = Some v \<and>
         total_column s' = total_column s \<and>
         check_column (total_column s) (h r) = Inr () \<and> check_column ''id'' (h r) = Inr ()"
proof (cases "total_trace_file s = Some r")
  case True
  show ?thesis
    using assms True unfolding Total_get_si_hit [OF True]
    by (auto split: sum.splits option.splits)
next
  case False
  from assms have u: "Total_uncached (total_column s) (h r) = Inr v"
    and s': "s' = s\<lparr>total_value := Some v, total_trace_file := Some r\<rparr>"
    unfolding Total_get_si_miss [OF False] by (auto split: sum.splits)
  from u have "check_column (total_column s) (h r) = Inr () \<and> check_column ''id'' (h r) = Inr ()"
    by (rule Total_uncached_Inr) simp
  then show ?thesis using s' by simp
qed

lemma Total_get_si_cached:
  assumes "total_trace_file s = Some r" and "total_value s = Some v"
    and "check_column (total_column s) (h r) = Inr ()" and "check_column ''id'' (h r) = Inr ()"
  shows "Total_get_si h s r = (Inr v, s)"
  using assms by (simp add: Total_get_si_hit)

text \<open>
  C2. For a \<^verbatim>\<open>Total\<close> object: after a call of \<^verbatim>\<open>get_si\<close> that returned a value, a
  second call with the same trace file returns the same value and leaves the object as it
  is, and it would return that value whatever the rows of the trace file were, as long as
  the two columns are there: it reads the cache, not the dataset. A call with a trace file
  that is not the cached reference runs the uncached computation and overwrites value and
  reference, whether or not the data equals the cached trace file's. In every case the
  outcome is that of the uncached computation on the trace file supplied.
\<close>

theorem Total_get_si_cache_behaviour:
  assumes "reachable h c s"
  shows "(\<forall>v s'. Total_get_si h s r = (Inr v, s') \<longrightarrow>
            Total_get_si h s' r = (Inr v, s') \<and>
            (\<forall>h'. check_column c (h' r) = Inr () \<and> check_column ''id'' (h' r) = Inr () \<longrightarrow>
                  Total_get_si h' s' r = (Inr v, s'))) \<and>
         (total_trace_file s \<noteq> Some r \<longrightarrow>
            (\<forall>v. Total_uncached c (h r) = Inr v \<longrightarrow>
                 Total_get_si h s r =
                   (Inr v, s\<lparr>total_value := Some v, total_trace_file := Some r\<rparr>))) \<and>
         fst (Total_get_si h s r) = Total_uncached c (h r)"
proof (intro conjI allI impI)
  fix v s'
  assume call: "Total_get_si h s r = (Inr v, s')"
  note col = reachable_column [OF assms]
  from Total_get_si_Inr [OF call] col
  have tf: "total_trace_file s' = Some r" and val: "total_value s' = Some v"
    and c': "total_column s' = c"
    and ck: "check_column (total_column s') (h r) = Inr ()" "check_column ''id'' (h r) = Inr ()"
    by simp_all
  show "Total_get_si h s' r = (Inr v, s')"
    using Total_get_si_cached [of s' r v h] tf val ck by simp
  fix h'
  assume "check_column c (h' r) = Inr () \<and> check_column ''id'' (h' r) = Inr ()"
  then show "Total_get_si h' s' r = (Inr v, s')"
    using Total_get_si_cached [of s' r v h'] tf val c' by simp
next
  fix v
  assume "total_trace_file s \<noteq> Some r" and "Total_uncached c (h r) = Inr v"
  then show "Total_get_si h s r = (Inr v, s\<lparr>total_value := Some v, total_trace_file := Some r\<rparr>)"
    using reachable_column [OF assms] by (simp add: Total_get_si_miss)
next
  show "fst (Total_get_si h s r) = Total_uncached c (h r)"
    using Total_get_si_cache_ok [OF reachable_cache_ok [OF assms], of r]
          reachable_column [OF assms]
    by simp
qed

theorem Total_get_si_cache_behaviour_witness:
  "reachable scenario_heap ''t (s)'' TotalTimeSpent_init \<and>
   Total_get_si scenario_heap TotalTimeSpent_init 0 =
     (Inr (NpFloat (Fin 4)), \<lparr>total_column = ''t (s)'', total_value = Some (NpFloat (Fin 4)),
                    total_trace_file = Some 0\<rparr>) \<and>
   Total_get_si scenario_heap
     \<lparr>total_column = ''t (s)'', total_value = Some (NpFloat (Fin 4)), total_trace_file = Some 0\<rparr> 0 =
     (Inr (NpFloat (Fin 4)), \<lparr>total_column = ''t (s)'', total_value = Some (NpFloat (Fin 4)),
                    total_trace_file = Some 0\<rparr>) \<and>
   check_column ''t (s)'' (Some empty_frame) = Inr () \<and>
   check_column ''id'' (Some empty_frame) = Inr () \<and>
   Total_get_si (\<lambda>r. Some empty_frame)
     \<lparr>total_column = ''t (s)'', total_value = Some (NpFloat (Fin 4)), total_trace_file = Some 0\<rparr> 0 =
     (Inr (NpFloat (Fin 4)), \<lparr>total_column = ''t (s)'', total_value = Some (NpFloat (Fin 4)),
                    total_trace_file = Some 0\<rparr>) \<and>
   scenario_heap 1 = scenario_heap 0 \<and>
   Total_get_si scenario_heap
     \<lparr>total_column = ''t (s)'', total_value = Some (NpFloat (Fin 4)), total_trace_file = Some 0\<rparr> 1 =
     (Inr (NpFloat (Fin 4)), \<lparr>total_column = ''t (s)'', total_value = Some (NpFloat (Fin 4)),
                    total_trace_file = Some 1\<rparr>)"
proof -
  let ?s1 = "\<lparr>total_column = ''t (s)'', total_value = Some (NpFloat (Fin 4)), total_trace_file = Some 0\<rparr>"
  have r0: "reachable scenario_heap ''t (s)'' TotalTimeSpent_init"
    unfolding TotalTimeSpent_init_def by (rule reachable.fresh)
  have u: "Total_uncached ''t (s)'' (scenario_heap 0) = Inr (NpFloat (Fin 4))"
          "Total_uncached ''t (s)'' (scenario_heap 1) = Inr (NpFloat (Fin 4))"
    by (simp_all add: scenario_uncached_t)
  have miss0: "total_trace_file TotalTimeSpent_init \<noteq> Some 0"
    by (simp add: TotalTimeSpent_init_def Total_init_def)
  have first: "Total_get_si scenario_heap TotalTimeSpent_init 0 = (Inr (NpFloat (Fin 4)), ?s1)"
    using Total_get_si_cache_behaviour [OF r0, of 0] miss0 u(1)
    by (simp add: TotalTimeSpent_init_def Total_init_def)
  have r1: "reachable scenario_heap ''t (s)'' ?s1"
    by (rule reachable.call [OF r0 first])
  have ck: "check_column ''t (s)'' (Some empty_frame) = Inr ()"
           "check_column ''id'' (Some empty_frame) = Inr ()"
    by (simp_all add: check_column_def get_data_frame_def)
  have second: "Total_get_si scenario_heap ?s1 0 = (Inr (NpFloat (Fin 4)), ?s1)"
    and norescan: "Total_get_si (\<lambda>r. Some empty_frame) ?s1 0 = (Inr (NpFloat (Fin 4)), ?s1)"
    using Total_get_si_cache_behaviour [OF r0, of 0] first ck by simp_all
  have other: "Total_get_si scenario_heap ?s1 1 =
      (Inr (NpFloat (Fin 4)), \<lparr>total_column = ''t (s)'', total_value = Some (NpFloat (Fin 4)),
                     total_trace_file = Some 1\<rparr>)"
    using Total_get_si_cache_behaviour [OF r1, of 1] u(2) by simp
  show ?thesis
    using r0 first second norescan other ck by simp
qed

section \<open>Composed statistics\<close>

lemma example_area_init: "Area_init (Fin 0) (Fin 2) (Fin 0) (Fin 2) = Inr example_area"
  by (simp add: Area_init_def Range_init_def example_area_def)

lemma flat_area_init: "Area_init (Fin 5) (Fin 5) (Fin 0) (Fin 100) = Inr flat_area"
  by (simp add: Area_init_def Range_init_def flat_area_def)

lemma fresh_totals_simps [simp]:
  "fresh_totals 0 = TotalTimeSpent_init" "fresh_totals (Suc 0) = TotalDistanceTraveled_init"
  by (simp_all add: fresh_totals_def)

lemma scenario_tts_first:
  "Total_get_si scenario_heap TotalTimeSpent_init 0 =
     (Inr (NpFloat (Fin 4)), \<lparr>total_column = ''t (s)'', total_value = Some (NpFloat (Fin 4)),
                    total_trace_file = Some 0\<rparr>)"
  by (simp add: Total_get_si_miss TotalTimeSpent_init_def Total_init_def scenario_uncached_t)

lemma scenario_tdt_first:
  "Total_get_si scenario_heap TotalDistanceTraveled_init 0 =
     (Inr (NpFloat (Fin 40)), \<lparr>total_column = ''pos (m)'', total_value = Some (NpFloat (Fin 40)),
                     total_trace_file = Some 0\<rparr>)"
  by (simp add: Total_get_si_miss TotalDistanceTraveled_init_def Total_init_def
        scenario_uncached_pos)

lemma scenario_tts_empty:
  "Total_get_si scenario_heap TotalTimeSpent_init 2 =
     (Inr (PyFloat (Fin 0)), \<lparr>total_column = ''t (s)'', total_value = Some (PyFloat (Fin 0)),
                    total_trace_file = Some 2\<rparr>)"
  by (simp add: Total_get_si_miss TotalTimeSpent_init_def Total_init_def Total_uncached_def
        check_column_def get_data_frame_def Total_compute_def get_column_def)

lemma scenario_get_si_tts:
  "fst (get_si scenario_heap (TotalTimeSpent 0) 0 fresh_totals) = Inr (NpFloat (Fin 4))"
  by (simp add: Total_get_si_at_def scenario_tts_first)

lemma scenario_get_si_tts_empty:
  "fst (get_si scenario_heap (TotalTimeSpent 0) 2 fresh_totals) = Inr (PyFloat (Fin 0))"
  by (simp add: Total_get_si_at_def scenario_tts_empty)

lemma scenario_get_si_tdt:
  "fst (get_si scenario_heap (TotalDistanceTraveled 1) 0 fresh_totals) = Inr (NpFloat (Fin 40))"
  by (simp add: Total_get_si_at_def scenario_tdt_first)

lemma scenario_get_si_mean_speed:
  "fst (get_si scenario_heap (MeanSpeed 0 1) 0 fresh_totals) = Inr (NpFloat (Fin 10))"
  by (simp add: Total_get_si_at_def scenario_tdt_first scenario_tts_first and_then_def
        truediv_def num_div_def result_of_def)

lemma Total_get_si_again:
  assumes "Total_get_si h s r = (Inr v, s')"
  shows "Total_get_si h s' r = (Inr v, s')"
  using Total_get_si_Inr [OF assms] Total_get_si_cached [of s' r v h] by simp

lemma Total_get_si_at_after:
  assumes d: "Total_get_si_at h b r \<sigma> = (Inr d, \<sigma>1)"
    and t: "Total_get_si_at h a r \<sigma> = (Inr t, \<sigma>2)"
  shows "fst (Total_get_si_at h a r \<sigma>1) = Inr t"
proof -
  from d obtain s1 where s1: "Total_get_si h (\<sigma> b) r = (Inr d, s1)" and \<sigma>1: "\<sigma>1 = \<sigma>(b := s1)"
    by (auto simp: Total_get_si_at_def split: prod.splits)
  from t obtain s2 where s2: "Total_get_si h (\<sigma> a) r = (Inr t, s2)"
    by (auto simp: Total_get_si_at_def split: prod.splits)
  show ?thesis
  proof (cases "a = b")
    case True
    with s1 s2 have "t = d" by simp
    then show ?thesis
      using Total_get_si_again [OF s1] True \<sigma>1 by (simp add: Total_get_si_at_def)
  next
    case False
    then show ?thesis using s2 \<sigma>1 by (simp add: Total_get_si_at_def)
  qed
qed

lemma truediv_nonzero: "as_flt t \<noteq> Fin 0 \<Longrightarrow> truediv d t = Inr (num_div d t)"
  by (simp add: truediv_def)

text \<open>
  C6. When \<^verbatim>\<open>get_si\<close> of the injected \<^verbatim>\<open>TotalDistanceTraveled\<close> and of the injected
  \<^verbatim>\<open>TotalTimeSpent\<close> return d and t on a trace file, with t not zero, \<^verbatim>\<open>MeanSpeed.get_si\<close>
  on that trace file returns the quotient d / t: the time is read after the distance has
  been cached, which does not change it, also when both references are one object.
  \<^verbatim>\<open>Density.get_si\<close> is \<^verbatim>\<open>TotalTimeSpent.get_si\<close> divided by the area, and
  \<^verbatim>\<open>Flow.get_si\<close> is \<^verbatim>\<open>TotalDistanceTraveled.get_si\<close> divided by the area, for every trace
  file and area, with the same effect on the injected object; an exception of the total is
  theirs. The division is the language's: on a zero area it gives an infinity or NaN when
  the total is a numpy scalar, and raises when it is the Python float of an empty dataset.
\<close>

theorem composed_statistics_divide:
  "(get_si h (TotalDistanceTraveled tdt) r \<sigma> = (Inr d, \<sigma>1) \<and>
    get_si h (TotalTimeSpent tts) r \<sigma> = (Inr t, \<sigma>2) \<and> as_flt t \<noteq> Fin 0 \<longrightarrow>
      fst (get_si h (MeanSpeed tts tdt) r \<sigma>) = Inr (num_div d t)) \<and>
   (get_si h (TotalTimeSpent tts) r \<sigma> = (Inr t, \<sigma>2) \<longrightarrow>
      get_si h (Density tts ar) r \<sigma> = (truediv t (PyFloat (get_area ar)), \<sigma>2)) \<and>
   (get_si h (TotalTimeSpent tts) r \<sigma> = (Inl e, \<sigma>2) \<longrightarrow>
      get_si h (Density tts ar) r \<sigma> = (Inl e, \<sigma>2)) \<and>
   (get_si h (TotalDistanceTraveled tdt) r \<sigma> = (Inr d, \<sigma>1) \<longrightarrow>
      get_si h (Flow tdt ar) r \<sigma> = (truediv d (PyFloat (get_area ar)), \<sigma>1)) \<and>
   (get_si h (TotalDistanceTraveled tdt) r \<sigma> = (Inl e, \<sigma>1) \<longrightarrow>
      get_si h (Flow tdt ar) r \<sigma> = (Inl e, \<sigma>1))"
proof (intro conjI impI)
  assume a: "get_si h (TotalDistanceTraveled tdt) r \<sigma> = (Inr d, \<sigma>1) \<and>
    get_si h (TotalTimeSpent tts) r \<sigma> = (Inr t, \<sigma>2) \<and> as_flt t \<noteq> Fin 0"
  then have d: "Total_get_si_at h tdt r \<sigma> = (Inr d, \<sigma>1)"
    and t: "Total_get_si_at h tts r \<sigma> = (Inr t, \<sigma>2)" by simp_all
  have "fst (Total_get_si_at h tts r \<sigma>1) = Inr t"
    by (rule Total_get_si_at_after [OF d t])
  then show "fst (get_si h (MeanSpeed tts tdt) r \<sigma>) = Inr (num_div d t)"
    using a by (cases "Total_get_si_at h tts r \<sigma>1") (simp add: d and_then_def truediv_nonzero)
qed (simp_all add: and_then_def)

theorem composed_statistics_divide_witness:
  "fst (get_si scenario_heap (TotalDistanceTraveled 1) 0 fresh_totals) = Inr (NpFloat (Fin 40)) \<and>
   fst (get_si scenario_heap (TotalTimeSpent 0) 0 fresh_totals) = Inr (NpFloat (Fin 4)) \<and>
   as_flt (NpFloat (Fin 4)) \<noteq> Fin 0 \<and>
   fst (get_si scenario_heap (MeanSpeed 0 1) 0 fresh_totals) = Inr (NpFloat (Fin 10)) \<and>
   get_area example_area = Fin 4 \<and>
   fst (get_si scenario_heap (Density 0 example_area) 0 fresh_totals) = Inr (NpFloat (Fin 1)) \<and>
   fst (get_si scenario_heap (Flow 1 example_area) 0 fresh_totals) = Inr (NpFloat (Fin 10)) \<and>
   get_area flat_area = Fin 0 \<and>
   fst (get_si scenario_heap (Density 0 flat_area) 0 fresh_totals) = Inr (NpFloat PInf) \<and>
   fst (get_si scenario_heap (TotalTimeSpent 0) 2 fresh_totals) = Inr (PyFloat (Fin 0)) \<and>
   fst (get_si scenario_heap (Density 0 flat_area) 2 fresh_totals) = Inl ZeroDivisionError"
proof -
  obtain \<sigma>1 where d: "get_si scenario_heap (TotalDistanceTraveled 1) 0 fresh_totals =
      (Inr (NpFloat (Fin 40)), \<sigma>1)"
    using scenario_get_si_tdt
    by (cases "get_si scenario_heap (TotalDistanceTraveled 1) 0 fresh_totals") simp
  obtain \<sigma>2 where t: "get_si scenario_heap (TotalTimeSpent 0) 0 fresh_totals =
      (Inr (NpFloat (Fin 4)), \<sigma>2)"
    using scenario_get_si_tts
    by (cases "get_si scenario_heap (TotalTimeSpent 0) 0 fresh_totals") simp
  obtain \<sigma>3 where z: "get_si scenario_heap (TotalTimeSpent 0) 2 fresh_totals =
      (Inr (PyFloat (Fin 0)), \<sigma>3)"
    using scenario_get_si_tts_empty
    by (cases "get_si scenario_heap (TotalTimeSpent 0) 2 fresh_totals") simp
  have ar: "get_area example_area = Fin 4" "get_area flat_area = Fin 0"
    by (simp_all add: get_area_def example_area_def flat_area_def)
  note th1 = composed_statistics_divide [of scenario_heap 1 0 fresh_totals "NpFloat (Fin 40)" \<sigma>1
      0 "NpFloat (Fin 4)" \<sigma>2 example_area]
  note th2 = composed_statistics_divide [of scenario_heap 1 0 fresh_totals "NpFloat (Fin 40)" \<sigma>1
      0 "NpFloat (Fin 4)" \<sigma>2 flat_area]
  note th3 = composed_statistics_divide [of scenario_heap 1 2 fresh_totals _ _
      0 "PyFloat (Fin 0)" \<sigma>3 flat_area]
  show ?thesis
    using th1 th2 th3 d t z ar
    by (simp add: truediv_def num_div_def result_of_def)
qed

section \<open>Preferred units\<close>

lemma round64_18_5: "round64 (18 / 5) = Fin (8106479329266893 / 2 ^ 51)"
  using round64_eval [of 1 "18 / 5" 8106479329266893]
  by (simp add: rhe_def power_int_minus_divide)

lemma ten_times_3_6: "fmul (Fin 10) (round64 (18 / 5)) = Fin 36"
  unfolding round64_18_5 fmul.simps
  using round64_eval [of 5 "10 * (8106479329266893 / 2 ^ 51)" 5066549580791808]
  by (simp add: rhe_def power_int_minus_divide)

lemma round64_1_1200: "round64 (1 / 1200) = Fin (7686143364045647 / 2 ^ 63)"
  using round64_eval [of "- 11" "1 / 1200" 7686143364045647]
  by (simp add: rhe_def power_int_minus_divide)

lemma round64_1_3600: "round64 (1 / 3600) = Fin (5124095576030431 / 2 ^ 64)"
  using round64_eval [of "- 12" "1 / 3600" 5124095576030431]
  by (simp add: rhe_def power_int_minus_divide)

lemma three_times_reciprocal:
  "fmul (Fin 3) (round64 (1 / 3600)) = Fin (7686143364045646 / 2 ^ 63)"
  unfolding round64_1_3600 fmul.simps
  using round64_eval [of "- 11" "3 * (5124095576030431 / 2 ^ 64)" 7686143364045646]
  by (simp add: rhe_def power_int_minus_divide)

lemma short_compute: "Total_compute ''t (s)'' short_frame = Inr (NpFloat (Fin 3))"
  by (simp add: Total_compute_def short_frame_def get_column_def field_def cell_at_def
      same_key_def py_eq_def isna_def select_rows_def series_max_def series_min_def
      flt_max_def flt_min_def num_add_def num_sub_def result_of_def)

lemma short_columns [simp]: "columns short_frame = [''id'', ''t (s)'']"
  by (simp add: short_frame_def)

lemma short_tts_first:
  "Total_get_si example_heap TotalTimeSpent_init 2 =
     (Inr (NpFloat (Fin 3)), \<lparr>total_column = ''t (s)'', total_value = Some (NpFloat (Fin 3)),
                    total_trace_file = Some 2\<rparr>)"
  by (simp add: Total_get_si_miss TotalTimeSpent_init_def Total_init_def Total_uncached_def
        check_column_def get_data_frame_def short_compute)

lemma short_get_si_tts:
  "fst (get_si example_heap (TotalTimeSpent 0) 2 fresh_totals) = Inr (NpFloat (Fin 3))"
  by (simp add: Total_get_si_at_def short_tts_first)

lemma round64_1_25: "round64 (1 / 25) = Fin (5764607523034235 / 2 ^ 57)"
  using round64_eval [of "- 5" "1 / 25" 5764607523034235]
  by (simp add: rhe_def power_int_minus_divide)

lemma divide_by_constant:
  "y \<noteq> 0 \<Longrightarrow> truediv v (PyFloat (Fin y)) = Inr (num_div v (PyFloat (Fin y)))"
  by (simp add: truediv_def)

text \<open>
  C7, as the code has it. Whenever \<^verbatim>\<open>get_si\<close> of a statistic returns a value on a trace
  file, \<^verbatim>\<open>get\<close> returns that value after the one double-precision operation the statistic
  writes: divided by 3600.0 for \<^verbatim>\<open>TotalTimeSpent\<close>, divided by 1000.0 for
  \<^verbatim>\<open>TotalDistanceTraveled\<close>, multiplied by 3.6 for \<^verbatim>\<open>MeanSpeed\<close>, by 1000.0 for
  \<^verbatim>\<open>Density\<close>, by 3600.0 for \<^verbatim>\<open>Flow\<close>, and unchanged for \<^verbatim>\<open>NumberOfLaneChanges\<close>;
  and it leaves the same objects behind.
\<close>

theorem get_is_converted_get_si:
  assumes "get_si h st r \<sigma> = (Inr v, \<sigma>')"
  shows "get h st r \<sigma> =
     (Inr (case st of
             TotalTimeSpent _ \<Rightarrow> num_div v (PyFloat (Fin 3600))
           | TotalDistanceTraveled _ \<Rightarrow> num_div v (PyFloat (Fin 1000))
           | MeanSpeed _ _ \<Rightarrow> num_mul v (PyFloat (round64 3.6))
           | Density _ _ \<Rightarrow> num_mul v (PyFloat (Fin 1000))
           | Flow _ _ \<Rightarrow> num_mul v (PyFloat (Fin 3600))
           | NumberOfLaneChanges \<Rightarrow> v), \<sigma>')"
proof (cases st)
  case NumberOfLaneChanges
  then show ?thesis using assms by simp
qed (use assms in \<open>simp_all add: and_then_def divide_by_constant del: get_si.simps\<close>)

theorem get_is_converted_get_si_witness:
  "fst (get_si scenario_heap (MeanSpeed 0 1) 0 fresh_totals) = Inr (NpFloat (Fin 10)) \<and>
   fst (get scenario_heap (MeanSpeed 0 1) 0 fresh_totals) = Inr (NpFloat (Fin 36)) \<and>
   fst (get_si scenario_heap (TotalDistanceTraveled 1) 0 fresh_totals) = Inr (NpFloat (Fin 40)) \<and>
   fst (get scenario_heap (TotalDistanceTraveled 1) 0 fresh_totals) =
     Inr (NpFloat (Fin (5764607523034235 / 2 ^ 57)))"
proof -
  obtain \<sigma>1 where m: "get_si scenario_heap (MeanSpeed 0 1) 0 fresh_totals =
      (Inr (NpFloat (Fin 10)), \<sigma>1)"
    using scenario_get_si_mean_speed
    by (cases "get_si scenario_heap (MeanSpeed 0 1) 0 fresh_totals") simp
  obtain \<sigma>3 where d: "get_si scenario_heap (TotalDistanceTraveled 1) 0 fresh_totals =
      (Inr (NpFloat (Fin 40)), \<sigma>3)"
    using scenario_get_si_tdt
    by (cases "get_si scenario_heap (TotalDistanceTraveled 1) 0 fresh_totals") simp
  show ?thesis
    using get_is_converted_get_si [OF m] get_is_converted_get_si [OF d] m d round64_1_25
    by (simp add: num_mul_def num_div_def result_of_def ten_times_3_6 del: get.simps get_si.simps)
qed

text \<open>
  Division by 3600.0 is not multiplication by 1/3600. On a trace file of one vehicle seen
  at t = 0 and t = 3, \<^verbatim>\<open>get_si\<close> of \<^verbatim>\<open>TotalTimeSpent\<close> is 3.0 and \<^verbatim>\<open>get\<close> is
  3.0 / 3600.0 = 7686143364045647 / 2^63 (0.0008333333333333334), which is neither the real
  number 3 * (1/3600) nor the double product 3.0 * (1/3600.0) = 7686143364045646 / 2^63
  (0.0008333333333333333).
\<close>

theorem get_is_not_get_si_times_reciprocal:
  "fst (get_si example_heap (TotalTimeSpent 0) 2 fresh_totals) = Inr (NpFloat (Fin 3)) \<and>
   fst (get example_heap (TotalTimeSpent 0) 2 fresh_totals) =
     Inr (NpFloat (Fin (7686143364045647 / 2 ^ 63))) \<and>
   (7686143364045647 / 2 ^ 63 :: real) \<noteq> 3 * rescale (TotalTimeSpent 0) \<and>
   num_mul (NpFloat (Fin 3)) (PyFloat (round64 (rescale (TotalTimeSpent 0)))) =
     NpFloat (Fin (7686143364045646 / 2 ^ 63))"
proof -
  have g: "fst (get example_heap (TotalTimeSpent 0) 2 fresh_totals) =
     Inr (NpFloat (Fin (7686143364045647 / 2 ^ 63)))"
    using round64_1_1200
    by (simp add: Total_get_si_at_def short_tts_first and_then_def truediv_def num_div_def
          result_of_def)
  have m: "num_mul (NpFloat (Fin 3)) (PyFloat (round64 (rescale (TotalTimeSpent 0)))) =
     NpFloat (Fin (7686143364045646 / 2 ^ 63))"
    using three_times_reciprocal by (simp add: num_mul_def result_of_def)
  show ?thesis using short_get_si_tts g m by simp
qed

section \<open>Table construction\<close>

lemma Table_init_unequal_raises:
  "length statistics \<noteq> length trace_files \<Longrightarrow>
   Table_init h statistics trace_files \<sigma> = (Inl (ValueError unequal_length_msg), \<sigma>)"
  by (simp add: Table_init_def len_is_def)

text \<open>
  C9, at 257 statistics and 257 trace files: the lists have equal length, and construction
  raises the \<^verbatim>\<open>ValueError\<close> of unequal lengths all the same, before any statistic is
  evaluated, because the test compares the two lengths by identity.
\<close>

theorem Table_init_raises_on_257_pairs:
  "length (replicate 257 NumberOfLaneChanges) = length (replicate 257 r) \<and>
   Table_init h (replicate 257 NumberOfLaneChanges) (replicate 257 r) \<sigma> =
     (Inl (ValueError unequal_length_msg), \<sigma>)"
  by (simp add: Table_init_def len_is_def)

end
